theory Spec2Isabelle
  imports Main "HOL-Library.AList" "HOL-Library.Word"
begin

section \<open>Go values\<close>

text \<open>
  A Go \<^verbatim>\<open>string\<close> and a \<^verbatim>\<open>[]byte\<close> are byte sequences: \<open>string\<close>.
  A Go \<^verbatim>\<open>error\<close> is modelled by its \<^verbatim>\<open>Error()\<close> text, the only thing the
  program ever reads from one; \<^verbatim>\<open>fmt.Errorf("x: %w", err)\<close> is \<open>''x: '' @ err\<close>.
  A function returning \<^verbatim>\<open>(T, error)\<close> returns \<open>err + T\<close>, \<open>Inl\<close> the error.
\<close>

type_synonym bytes = string
type_synonym err = string

subsection \<open>strings.ReplaceAll, strings.Contains, strings.Fields\<close>

text \<open>
  \<^verbatim>\<open>strings.ReplaceAll(s, old, new)\<close> for a non-empty \<open>old\<close>: the non-overlapping
  occurrences of \<open>old\<close> are replaced from left to right. (The program never calls it with
  an empty \<open>old\<close>; there the model leaves \<open>s\<close> as it is.)
\<close>

function replaceAll :: "string \<Rightarrow> string \<Rightarrow> string \<Rightarrow> string" where
  "replaceAll [] old new = []"
| "replaceAll (c # s) old new =
     (if old \<noteq> [] \<and> take (length old) (c # s) = old
      then new @ replaceAll (drop (length old) (c # s)) old new
      else c # replaceAll s old new)"
  by pat_completeness auto
termination
  by (relation "measure (\<lambda>(s, old, new). length s)") (auto simp: neq_Nil_conv)

fun hasPrefix :: "string \<Rightarrow> string \<Rightarrow> bool" where
  "hasPrefix s [] = True"
| "hasPrefix [] (p # ps) = False"
| "hasPrefix (c # s) (p # ps) = (c = p \<and> hasPrefix s ps)"

fun contains :: "string \<Rightarrow> string \<Rightarrow> bool" where
  "contains [] sub = (sub = [])"
| "contains (c # s) sub = (hasPrefix (c # s) sub \<or> contains s sub)"

text \<open>
  \<^verbatim>\<open>strings.Fields\<close> splits around runs of white space. The ASCII white space of Go's
  \<^verbatim>\<open>asciiSpace\<close> table is modelled; white space beyond ASCII (U+0085, U+00A0, ...)
  is not, and only the stored word count depends on it.
\<close>

definition isSpace :: "char \<Rightarrow> bool" where
  "isSpace c = (c \<in> {CHR 0x09, CHR 0x0A, CHR 0x0B, CHR 0x0C, CHR 0x0D, CHR 0x20})"

fun fieldsFrom :: "string \<Rightarrow> string \<Rightarrow> string list" where
  "fieldsFrom [] w = (if w = [] then [] else [w])"
| "fieldsFrom (c # s) w =
     (if isSpace c then (if w = [] then fieldsFrom s [] else w # fieldsFrom s [])
      else fieldsFrom s (w @ [c]))"

definition Fields :: "string \<Rightarrow> string list" where
  "Fields s = fieldsFrom s []"

subsection \<open>journal.go: helper functions\<close>

definition sanitizeMarkdown :: "string \<Rightarrow> string" where
  "sanitizeMarkdown content =
     (let content = replaceAll content [CHR 0x00] [];
          content = replaceAll content [CHR 0x0D, CHR 0x0A] [CHR 0x0A];
          content = replaceAll content [CHR 0x0D] [CHR 0x0A]
      in content)"

definition countWords :: "string \<Rightarrow> nat" where
  "countWords content = length (Fields content)"

subsection \<open>time.Parse("2006-01-02", s) and Time.Format("2006-01-02")\<close>

text \<open>
  A date is (year, month, day). The layout accepts exactly four digits, \<open>-\<close>, two digits,
  \<open>-\<close>, two digits, with the month in 1..12 and the day within the month.
\<close>

type_synonym date = "nat \<times> nat \<times> nat"

definition isDigit :: "char \<Rightarrow> bool" where
  "isDigit c = (48 \<le> (of_char c :: nat) \<and> (of_char c :: nat) \<le> 57)"

definition digitVal :: "char \<Rightarrow> nat" where
  "digitVal c = (of_char c :: nat) - 48"

definition isLeap :: "nat \<Rightarrow> bool" where
  "isLeap year = (year mod 4 = 0 \<and> (year mod 100 \<noteq> 0 \<or> year mod 400 = 0))"

definition daysIn :: "nat \<Rightarrow> nat \<Rightarrow> nat" where
  "daysIn m year =
     (if m = 2 then (if isLeap year then 29 else 28)
      else if m = 4 \<or> m = 6 \<or> m = 9 \<or> m = 11 then 30 else 31)"

fun parseDate :: "string \<Rightarrow> err + date" where
  "parseDate [y1, y2, y3, y4, h1, m1, m2, h2, d1, d2] =
     (if isDigit y1 \<and> isDigit y2 \<and> isDigit y3 \<and> isDigit y4 \<and> h1 = CHR ''-'' \<and>
         isDigit m1 \<and> isDigit m2 \<and> h2 = CHR ''-'' \<and> isDigit d1 \<and> isDigit d2
      then (let year = digitVal y1 * 1000 + digitVal y2 * 100 + digitVal y3 * 10 + digitVal y4;
                month = digitVal m1 * 10 + digitVal m2;
                day = digitVal d1 * 10 + digitVal d2
            in if month = 0 \<or> 12 < month then Inl ''parsing time: month out of range''
               else if day < 1 \<or> daysIn month year < day then Inl ''parsing time: day out of range''
               else Inr (year, month, day))
      else Inl ''parsing time: cannot parse'')"
| "parseDate s = Inl ''parsing time: cannot parse''"

declare parseDate.simps [simp del]

definition digitChar :: "nat \<Rightarrow> char" where
  "digitChar n = char_of (48 + n mod 10)"

definition formatDate :: "date \<Rightarrow> string" where
  "formatDate dt = (case dt of (y, m, d) \<Rightarrow>
     [digitChar (y div 1000), digitChar (y div 100), digitChar (y div 10), digitChar y,
      CHR ''-'', digitChar (m div 10), digitChar m, CHR ''-'', digitChar (d div 10), digitChar d])"


section \<open>The environment of one call\<close>

text \<open>
  The three backends are reached through library calls (AWS SDK, database/sql, go-git, os)
  that may fail. Each call site that the program checks is a \<open>call\<close>; the environment says
  which of them fail during one operation, and with which error text. A call that fails has
  no effect of its own; the effects of the calls before it stay. The environment also gives
  the clock: \<^verbatim>\<open>time.Now()\<close> and SQL \<^verbatim>\<open>NOW()\<close> read \<open>now\<close> (one reading per operation).
\<close>

datatype call =
    S3PutObject | S3GetObject | S3DeleteObject string
  | DbQueryJournal | DbQueryEntryByDate | DbQueryEntry | DbQueryEntries
  | DbInsertEntry | DbUpdateEntry | DbDeleteEntry | DbInsertVersion | DbDeleteJournal
  | GitPlainOpen | GitPlainInit | GitInitWorktree | GitkeepWriteFile | GitkeepAdd
  | GitInitialCommit | GitWorktree | OsMkdirAll | OsWriteFile | GitAdd | GitStatus
  | GitHead | GitCommit | GitCommitObject | GitCommitFile | GitFileReader | GitRead
  | GitLog | GitCommitTree | GitTreeFile

record env =
  now :: nat
  fails :: "call \<Rightarrow> err option"

section \<open>s3.go: the blob store\<close>

type_synonym bucket = "(string \<times> bytes) list"

definition Upload :: "env \<Rightarrow> bucket \<Rightarrow> string \<Rightarrow> bytes \<Rightarrow> err + bucket" where
  "Upload E b key content =
     (case fails E S3PutObject of
        Some e \<Rightarrow> Inl e
      | None \<Rightarrow> Inr (AList.update key content b))"

definition Download :: "env \<Rightarrow> bucket \<Rightarrow> string \<Rightarrow> err + bytes" where
  "Download E b key =
     (case fails E S3GetObject of
        Some e \<Rightarrow> Inl e
      | None \<Rightarrow> (case map_of b key of
                   None \<Rightarrow> Inl ''NoSuchKey: The specified key does not exist.''
                 | Some content \<Rightarrow> Inr content))"

text \<open>\<^verbatim>\<open>DeleteObject\<close> of an absent key succeeds.\<close>

definition Delete :: "env \<Rightarrow> bucket \<Rightarrow> string \<Rightarrow> err + bucket" where
  "Delete E b key =
     (case fails E (S3DeleteObject key) of
        Some e \<Rightarrow> Inl e
      | None \<Rightarrow> Inr (AList.delete key b))"

definition GenerateKey :: "string \<Rightarrow> string \<Rightarrow> string \<Rightarrow> string" where
  "GenerateKey userSub journalID entryDate =
     userSub @ ''/'' @ journalID @ ''/'' @ entryDate @ ''.md''"

section \<open>store: the metadata tables\<close>

text \<open>
  A commit hash is kept abstract: \<open>hash\<close>. \<^verbatim>\<open>Hash.String()\<close> and
  \<^verbatim>\<open>plumbing.NewHash\<close> convert between a hash and its 40 hex digits; where the source
  tests a hash string against \<^verbatim>\<open>""\<close>, the model has a \<open>hash option\<close>.
  \<^verbatim>\<open>sql.NullString\<close> and \<^verbatim>\<open>sql.NullInt32\<close> are options. Times are clock readings.
\<close>

type_synonym hash = nat

record Journal =
  j_ID :: string
  j_UserSub :: string
  j_Title :: string
  j_Description :: "string option"
  j_CreatedAt :: nat
  j_UpdatedAt :: nat

record JournalEntry =
  e_ID :: string
  e_JournalID :: string
  e_EntryDate :: date
  e_S3Key :: string
  e_GitCommitHash :: "hash option"
  e_WordCount :: "32 word option"
  e_CreatedAt :: nat
  e_UpdatedAt :: nat

record JournalVersion =
  v_ID :: string
  v_EntryID :: string
  v_CommitHash :: hash
  v_CommitMessage :: "string option"
  v_AuthorName :: "string option"
  v_AuthorEmail :: "string option"
  v_CreatedAt :: nat

text \<open>
  The tables of the schema (001_journal_schema.sql), rows in insertion order. The schema's
  constraints are checked by the inserts below: primary keys, \<open>UNIQUE(journal_id, entry_date)\<close>,
  \<open>UNIQUE(entry_id, commit_hash)\<close>, the foreign keys, and \<open>ON DELETE CASCADE\<close>.
\<close>

record Store =
  journals :: "Journal list"
  entries :: "JournalEntry list"
  versions :: "JournalVersion list"

fun showNat :: "nat \<Rightarrow> string" where
  "showNat n = (if n < 10 then [digitChar n] else showNat (n div 10) @ [digitChar n])"

declare showNat.simps [simp del]

text \<open>\<^verbatim>\<open>generateUUID\<close>: \<^verbatim>\<open>fmt.Sprintf("journal-%d", time.Now().UnixNano())\<close>.\<close>

definition generateUUID :: "env \<Rightarrow> string" where
  "generateUUID E = ''journal-'' @ showNat (now E)"

definition ErrNoRows :: err where
  "ErrNoRows = ''sql: no rows in result set''"

definition GetJournal :: "env \<Rightarrow> Store \<Rightarrow> string \<Rightarrow> string \<Rightarrow> err + Journal" where
  "GetJournal E st ident userSub =
     (case fails E DbQueryJournal of
        Some e \<Rightarrow> Inl e
      | None \<Rightarrow> (case find (\<lambda>j. j_ID j = ident \<and> j_UserSub j = userSub) (journals st) of
                   None \<Rightarrow> Inl ErrNoRows
                 | Some j \<Rightarrow> Inr j))"

definition GetJournalEntry :: "env \<Rightarrow> Store \<Rightarrow> string \<Rightarrow> err + JournalEntry" where
  "GetJournalEntry E st ident =
     (case fails E DbQueryEntry of
        Some e \<Rightarrow> Inl e
      | None \<Rightarrow> (case find (\<lambda>r. e_ID r = ident) (entries st) of
                   None \<Rightarrow> Inl ErrNoRows
                 | Some r \<Rightarrow> Inr r))"

text \<open>
  The source formats the date and the database compares it with the \<open>DATE\<close> column; the
  model compares the dates.
\<close>

definition GetJournalEntryByDate :: "env \<Rightarrow> Store \<Rightarrow> string \<Rightarrow> date \<Rightarrow> err + JournalEntry" where
  "GetJournalEntryByDate E st journalID entryDate =
     (case fails E DbQueryEntryByDate of
        Some e \<Rightarrow> Inl e
      | None \<Rightarrow> (case find (\<lambda>r. e_JournalID r = journalID \<and> e_EntryDate r = entryDate) (entries st) of
                   None \<Rightarrow> Inl ErrNoRows
                 | Some r \<Rightarrow> Inr r))"

definition dateKey :: "date \<Rightarrow> nat" where
  "dateKey dt = (case dt of (y, m, d) \<Rightarrow> y * 10000 + m * 100 + d)"

definition ListJournalEntries :: "env \<Rightarrow> Store \<Rightarrow> string \<Rightarrow> err + JournalEntry list" where
  "ListJournalEntries E st journalID =
     (case fails E DbQueryEntries of
        Some e \<Rightarrow> Inl e
      | None \<Rightarrow> Inr (rev (sort_key (\<lambda>r. dateKey (e_EntryDate r))
                            (filter (\<lambda>r. e_JournalID r = journalID) (entries st)))))"

definition CreateJournalEntry :: "env \<Rightarrow> Store \<Rightarrow> JournalEntry \<Rightarrow> Store \<times> (err + JournalEntry)" where
  "CreateJournalEntry E st entry =
     (let entry = (if e_ID entry = [] then entry\<lparr>e_ID := generateUUID E\<rparr> else entry) in
      case fails E DbInsertEntry of
        Some e \<Rightarrow> (st, Inl e)
      | None \<Rightarrow>
          if \<exists>r \<in> set (entries st). e_ID r = e_ID entry
          then (st, Inl ''pq: duplicate key value violates unique constraint journal_entries_pkey'')
          else if \<not> (\<exists>j \<in> set (journals st). j_ID j = e_JournalID entry)
          then (st, Inl ''pq: insert on table journal_entries violates foreign key constraint'')
          else if \<exists>r \<in> set (entries st).
                    e_JournalID r = e_JournalID entry \<and> e_EntryDate r = e_EntryDate entry
          then (st, Inl ''pq: duplicate key value violates unique constraint journal_entries_journal_id_entry_date_key'')
          else (let st = st\<lparr>entries := entries st @
                           [entry\<lparr>e_CreatedAt := now E, e_UpdatedAt := now E\<rparr>]\<rparr>
                in (st, GetJournalEntry E st (e_ID entry))))"

definition UpdateJournalEntry :: "env \<Rightarrow> Store \<Rightarrow> JournalEntry \<Rightarrow> Store \<times> (err + unit)" where
  "UpdateJournalEntry E st entry =
     (case fails E DbUpdateEntry of
        Some e \<Rightarrow> (st, Inl e)
      | None \<Rightarrow>
          (st\<lparr>entries := map (\<lambda>r. if e_ID r = e_ID entry
                                   then r\<lparr>e_S3Key := e_S3Key entry,
                                          e_GitCommitHash := e_GitCommitHash entry,
                                          e_WordCount := e_WordCount entry,
                                          e_UpdatedAt := now E\<rparr>
                                   else r) (entries st)\<rparr>, Inr ()))"

definition DeleteJournalEntry :: "env \<Rightarrow> Store \<Rightarrow> string \<Rightarrow> Store \<times> (err + unit)" where
  "DeleteJournalEntry E st ident =
     (case fails E DbDeleteEntry of
        Some e \<Rightarrow> (st, Inl e)
      | None \<Rightarrow>
          (st\<lparr>entries := filter (\<lambda>r. e_ID r \<noteq> ident) (entries st),
              versions := filter (\<lambda>v. v_EntryID v \<noteq> ident) (versions st)\<rparr>, Inr ()))"

definition CreateJournalVersion :: "env \<Rightarrow> Store \<Rightarrow> JournalVersion \<Rightarrow> Store \<times> (err + JournalVersion)" where
  "CreateJournalVersion E st version =
     (let version = (if v_ID version = [] then version\<lparr>v_ID := generateUUID E\<rparr> else version) in
      case fails E DbInsertVersion of
        Some e \<Rightarrow> (st, Inl e)
      | None \<Rightarrow>
          if \<exists>v \<in> set (versions st). v_ID v = v_ID version
          then (st, Inl ''pq: duplicate key value violates unique constraint journal_versions_pkey'')
          else if \<not> (\<exists>r \<in> set (entries st). e_ID r = v_EntryID version)
          then (st, Inl ''pq: insert on table journal_versions violates foreign key constraint'')
          else if \<exists>v \<in> set (versions st).
                    v_EntryID v = v_EntryID version \<and> v_CommitHash v = v_CommitHash version
          then (st, Inl ''pq: duplicate key value violates unique constraint journal_versions_entry_id_commit_hash_key'')
          else (st\<lparr>versions := versions st @ [version]\<rparr>, Inr version))"

text \<open>Store.DeleteJournal: the cascade removes the journal's entries and their versions.\<close>

definition StoreDeleteJournal :: "env \<Rightarrow> Store \<Rightarrow> string \<Rightarrow> string \<Rightarrow> Store \<times> (err + unit)" where
  "StoreDeleteJournal E st ident userSub =
     (case fails E DbDeleteJournal of
        Some e \<Rightarrow> (st, Inl e)
      | None \<Rightarrow>
          if \<exists>j \<in> set (journals st). j_ID j = ident \<and> j_UserSub j = userSub
          then (let gone = filter (\<lambda>r. e_JournalID r = ident) (entries st) in
                (st\<lparr>journals := filter (\<lambda>j. j_ID j \<noteq> ident) (journals st),
                    entries := filter (\<lambda>r. e_JournalID r \<noteq> ident) (entries st),
                    versions := filter (\<lambda>v. v_EntryID v \<notin> set (map e_ID gone)) (versions st)\<rparr>,
                 Inr ()))
          else (st, Inr ()))"


section \<open>git.go: one repository per user\<close>

text \<open>
  go-git is a library; the model keeps what the program uses of it. A repository has a
  work tree (the files on disk), an index (what \<^verbatim>\<open>Add\<close> staged) and its commits. The
  program only ever commits on top of HEAD, so the history is a list, HEAD first, and HEAD
  exists iff the list is not empty. A commit records the index as its tree; its hash is
  its position in the history, which identifies it there. The root directory holds the
  repositories by user.
\<close>

type_synonym files = "(string \<times> bytes) list"

record Commit =
  c_Hash :: hash
  c_Message :: string
  c_AuthorName :: string
  c_AuthorEmail :: string
  c_When :: nat
  c_Tree :: files

record Repository =
  commits :: "Commit list"
  index :: files
  worktree :: files

type_synonym gitroot = "(string \<times> Repository) list"

record CommitInfo =
  ci_Hash :: hash
  ci_Message :: string
  ci_AuthorName :: string
  ci_AuthorEmail :: string
  ci_CreatedAt :: nat

definition ErrReferenceNotFound :: err where
  "ErrReferenceNotFound = ''reference not found''"

definition ErrObjectNotFound :: err where
  "ErrObjectNotFound = ''object not found''"

definition ErrFileNotFound :: err where
  "ErrFileNotFound = ''file not found''"

text \<open>\<^verbatim>\<open>Worktree.Commit\<close> with the fixed author: a new commit of the index on top of HEAD.\<close>

definition wtCommit :: "env \<Rightarrow> Repository \<Rightarrow> string \<Rightarrow> Repository" where
  "wtCommit E r msg =
     r\<lparr>commits := \<lparr>c_Hash = length (commits r), c_Message = msg,
                    c_AuthorName = ''LifeLogger System'',
                    c_AuthorEmail = ''system@lifelogger.life'',
                    c_When = now E, c_Tree = index r\<rparr> # commits r\<rparr>"

definition headTree :: "Repository \<Rightarrow> files" where
  "headTree r = (case commits r of [] \<Rightarrow> [] | c # cs \<Rightarrow> c_Tree c)"

definition sameFiles :: "files \<Rightarrow> files \<Rightarrow> bool" where
  "sameFiles a b = (\<forall>p \<in> set (map fst a @ map fst b). map_of a p = map_of b p)"

text \<open>
  \<^verbatim>\<open>Status().IsClean()\<close>: nothing staged that differs from HEAD, and no file of the work
  tree (tracked or not) that differs from the index.
\<close>

definition IsClean :: "Repository \<Rightarrow> bool" where
  "IsClean r = (sameFiles (headTree r) (index r) \<and> sameFiles (index r) (worktree r))"

text \<open>\<^verbatim>\<open>filepath.Join(journalID, entryDate + ".md")\<close>, for identifiers that are path elements.\<close>

definition entryPath :: "string \<Rightarrow> string \<Rightarrow> string" where
  "entryPath journalID entryDate = journalID @ ''/'' @ entryDate @ ''.md''"

definition GetOrInitRepo :: "env \<Rightarrow> gitroot \<Rightarrow> string \<Rightarrow> gitroot \<times> (err + Repository)" where
  "GetOrInitRepo E g userSub =
     (case fails E GitPlainOpen of
        Some e \<Rightarrow> (g, Inl (''failed to open git repository: '' @ e))
      | None \<Rightarrow>
     (case map_of g userSub of
        Some repo \<Rightarrow> (g, Inr repo)
      | None \<Rightarrow>
     (case fails E GitPlainInit of
        Some e \<Rightarrow> (g, Inl (''failed to initialize git repository: '' @ e))
      | None \<Rightarrow>
     (let repo = \<lparr>commits = [], index = [], worktree = []\<rparr> in
      case fails E GitInitWorktree of
        Some e \<Rightarrow> (AList.update userSub repo g, Inl (''failed to get worktree: '' @ e))
      | None \<Rightarrow>
     (case fails E GitkeepWriteFile of
        Some e \<Rightarrow> (AList.update userSub repo g, Inl (''failed to create .gitkeep: '' @ e))
      | None \<Rightarrow>
     (let repo = repo\<lparr>worktree := AList.update ''.gitkeep'' [] (worktree repo)\<rparr> in
      case fails E GitkeepAdd of
        Some e \<Rightarrow> (AList.update userSub repo g, Inl (''failed to add .gitkeep: '' @ e))
      | None \<Rightarrow>
     (let repo = repo\<lparr>index := AList.update ''.gitkeep'' [] (index repo)\<rparr> in
      case fails E GitInitialCommit of
        Some e \<Rightarrow> (AList.update userSub repo g, Inl (''failed to create initial commit: '' @ e))
      | None \<Rightarrow>
     (let repo = wtCommit E repo ''Initial commit'' in
      (AList.update userSub repo g, Inr repo)))))))))"

text \<open>\<^verbatim>\<open>repo.Head()\<close>.\<close>

definition Head :: "env \<Rightarrow> Repository \<Rightarrow> err + Commit" where
  "Head E repo =
     (case fails E GitHead of
        Some e \<Rightarrow> Inl e
      | None \<Rightarrow> (case commits repo of [] \<Rightarrow> Inl ErrReferenceNotFound | c # cs \<Rightarrow> Inr c))"

definition CommitFile ::
  "env \<Rightarrow> gitroot \<Rightarrow> string \<Rightarrow> string \<Rightarrow> string \<Rightarrow> string \<Rightarrow> string \<Rightarrow> gitroot \<times> (err + hash)" where
  "CommitFile E g userSub journalID entryDate content commitMessage =
     (case GetOrInitRepo E g userSub of
        (g, Inl e) \<Rightarrow> (g, Inl e)
      | (g, Inr repo) \<Rightarrow>
     (case fails E GitWorktree of
        Some e \<Rightarrow> (g, Inl (''failed to get worktree: '' @ e))
      | None \<Rightarrow>
     (case fails E OsMkdirAll of
        Some e \<Rightarrow> (g, Inl (''failed to create entry directory: '' @ e))
      | None \<Rightarrow>
     (case fails E OsWriteFile of
        Some e \<Rightarrow> (g, Inl (''failed to write file: '' @ e))
      | None \<Rightarrow>
     (let relativePath = entryPath journalID entryDate;
          repo = repo\<lparr>worktree := AList.update relativePath content (worktree repo)\<rparr> in
      case fails E GitAdd of
        Some e \<Rightarrow> (AList.update userSub repo g, Inl (''failed to add file to git: '' @ e))
      | None \<Rightarrow>
     (let repo = repo\<lparr>index := AList.update relativePath content (index repo)\<rparr> in
      case fails E GitStatus of
        Some e \<Rightarrow> (AList.update userSub repo g, Inl (''failed to get status: '' @ e))
      | None \<Rightarrow>
      if IsClean repo
      then (case Head E repo of
              Inl e \<Rightarrow> (AList.update userSub repo g, Inl (''failed to get HEAD: '' @ e))
            | Inr c \<Rightarrow> (AList.update userSub repo g, Inr (c_Hash c)))
      else
     (let commitMessage = (if commitMessage = [] then ''Entry for '' @ entryDate
                           else commitMessage) in
      case fails E GitCommit of
        Some e \<Rightarrow> (AList.update userSub repo g, Inl (''failed to commit: '' @ e))
      | None \<Rightarrow>
          (AList.update userSub (wtCommit E repo commitMessage) g,
           Inr (length (commits repo))))))))))"

text \<open>
  \<^verbatim>\<open>GetFileContent\<close>; \<open>commitHash = None\<close> is the source's \<^verbatim>\<open>commitHash == ""\<close>.
  The read is taken to fill the buffer of \<^verbatim>\<open>file.Size\<close> bytes.
\<close>

definition GetFileContent ::
  "env \<Rightarrow> gitroot \<Rightarrow> string \<Rightarrow> string \<Rightarrow> string \<Rightarrow> hash option \<Rightarrow> gitroot \<times> (err + bytes)" where
  "GetFileContent E g userSub journalID entryDate commitHash =
     (case GetOrInitRepo E g userSub of
        (g, Inl e) \<Rightarrow> (g, Inl e)
      | (g, Inr repo) \<Rightarrow>
     (case (case commitHash of
              None \<Rightarrow>
                (case Head E repo of
                   Inl e \<Rightarrow> Inl (''failed to get HEAD: '' @ e)
                 | Inr c \<Rightarrow> (case fails E GitCommitObject of
                              Some e \<Rightarrow> Inl (''failed to get commit: '' @ e)
                            | None \<Rightarrow> Inr c))
            | Some h \<Rightarrow>
                (case fails E GitCommitObject of
                   Some e \<Rightarrow> Inl (''failed to get commit: '' @ e)
                 | None \<Rightarrow> (case find (\<lambda>c. c_Hash c = h) (commits repo) of
                              None \<Rightarrow> Inl (''failed to get commit: '' @ ErrObjectNotFound)
                            | Some c \<Rightarrow> Inr c))) of
        Inl e \<Rightarrow> (g, Inl e)
      | Inr commit \<Rightarrow>
     (case fails E GitCommitFile of
        Some e \<Rightarrow> (g, Inl (''failed to get file from commit: '' @ e))
      | None \<Rightarrow>
     (case map_of (c_Tree commit) (entryPath journalID entryDate) of
        None \<Rightarrow> (g, Inl (''failed to get file from commit: '' @ ErrFileNotFound))
      | Some content \<Rightarrow>
     (case fails E GitFileReader of
        Some e \<Rightarrow> (g, Inl (''failed to read file: '' @ e))
      | None \<Rightarrow>
     (case fails E GitRead of
        Some e \<Rightarrow> (g, Inl (''failed to read file content: '' @ e))
      | None \<Rightarrow> (g, Inr content)))))))"

text \<open>
  The callback of \<^verbatim>\<open>cIter.ForEach\<close> in \<^verbatim>\<open>ListCommits\<close>, run over the log from HEAD
  backwards: a commit whose tree has no file at the path is skipped, an error stops the
  iteration, otherwise the commit's info is appended.
\<close>

fun forEachCommit :: "env \<Rightarrow> string \<Rightarrow> Commit list \<Rightarrow> CommitInfo list \<Rightarrow> CommitInfo list \<times> err option" where
  "forEachCommit E filePath [] acc = (acc, None)"
| "forEachCommit E filePath (commit # rest) acc =
     (case fails E GitCommitTree of
        Some e \<Rightarrow> (acc, Some e)
      | None \<Rightarrow>
     (case map_of (c_Tree commit) filePath of
        None \<Rightarrow> forEachCommit E filePath rest acc
      | Some content \<Rightarrow>
     (case fails E GitTreeFile of
        Some e \<Rightarrow> (acc, Some e)
      | None \<Rightarrow>
          forEachCommit E filePath rest
            (acc @ [\<lparr>ci_Hash = c_Hash commit, ci_Message = c_Message commit,
                     ci_AuthorName = c_AuthorName commit,
                     ci_AuthorEmail = c_AuthorEmail commit,
                     ci_CreatedAt = c_When commit\<rparr>]))))"

text \<open>
  \<^verbatim>\<open>ListCommits\<close>. \<^verbatim>\<open>repo.Log\<close> from HEAD in committer-time order pops the newest
  commit and pushes its parents; on a history without merges that is the history from HEAD
  backwards. The swap loop at the end is \<open>rev\<close>. The source returns the commits collected
  so far together with the error; a caller that sees the error does not read them.
\<close>

definition ListCommits ::
  "env \<Rightarrow> gitroot \<Rightarrow> string \<Rightarrow> string \<Rightarrow> string \<Rightarrow> gitroot \<times> (err + CommitInfo list)" where
  "ListCommits E g userSub journalID entryDate =
     (case GetOrInitRepo E g userSub of
        (g, Inl e) \<Rightarrow> (g, Inl e)
      | (g, Inr repo) \<Rightarrow>
     (case Head E repo of
        Inl e \<Rightarrow> (g, Inl (''failed to get HEAD: '' @ e))
      | Inr ref \<Rightarrow>
     (case fails E GitLog of
        Some e \<Rightarrow> (g, Inl (''failed to get log: '' @ e))
      | None \<Rightarrow>
     (case forEachCommit E (entryPath journalID entryDate) (commits repo) [] of
        (cs, Some e) \<Rightarrow> (g, Inl e)
      | (cs, None) \<Rightarrow> (g, Inr (rev cs))))))"


section \<open>journal.go: the service\<close>

text \<open>The state behind the three handles of \<^verbatim>\<open>Service\<close>.\<close>

record Service =
  store :: Store
  s3 :: bucket
  git :: gitroot

text \<open>\<^verbatim>\<open>_ = s.s3.Delete(ctx, key)\<close> and the logged deletes: the error is dropped.\<close>

definition bestEffortDelete :: "env \<Rightarrow> bucket \<Rightarrow> string \<Rightarrow> bucket" where
  "bestEffortDelete E b key = (case Delete E b key of Inl e \<Rightarrow> b | Inr b' \<Rightarrow> b')"

definition systemVersion :: "env \<Rightarrow> string \<Rightarrow> hash \<Rightarrow> string \<Rightarrow> JournalVersion" where
  "systemVersion E entryID commitHash message =
     \<lparr>v_ID = [], v_EntryID = entryID, v_CommitHash = commitHash,
      v_CommitMessage = Some message,
      v_AuthorName = Some ''LifeLogger System'',
      v_AuthorEmail = Some ''system@lifelogger.life'',
      v_CreatedAt = now E\<rparr>"

definition CreateEntry ::
  "env \<Rightarrow> Service \<Rightarrow> string \<Rightarrow> string \<Rightarrow> string \<Rightarrow> string \<Rightarrow> Service \<times> (err + JournalEntry)" where
  "CreateEntry E s userSub journalID entryDate content =
     (case parseDate entryDate of
        Inl e \<Rightarrow> (s, Inl (''invalid date format: '' @ e))
      | Inr dt \<Rightarrow>
     (case GetJournal E (store s) journalID userSub of
        Inl e \<Rightarrow> (s, Inl (''journal not found: '' @ e))
      | Inr j \<Rightarrow>
     (case GetJournalEntryByDate E (store s) journalID dt of
        Inr existing \<Rightarrow> (s, Inl (''entry for date '' @ entryDate @ '' already exists''))
      | Inl e \<Rightarrow>
     (let content = sanitizeMarkdown content;
          wordCount = countWords content;
          s3Key = GenerateKey userSub journalID entryDate in
      case Upload E (s3 s) s3Key content of
        Inl e \<Rightarrow> (s, Inl (''failed to upload to S3: '' @ e))
      | Inr b \<Rightarrow>
     (let s = s\<lparr>s3 := b\<rparr> in
      case CommitFile E (git s) userSub journalID entryDate content (''Entry for '' @ entryDate) of
        (g, Inl e) \<Rightarrow>
          (s\<lparr>git := g, s3 := bestEffortDelete E (s3 s) s3Key\<rparr>,
           Inl (''failed to commit to Git: '' @ e))
      | (g, Inr commitHash) \<Rightarrow>
     (let s = s\<lparr>git := g\<rparr>;
          entry = \<lparr>e_ID = [], e_JournalID = journalID, e_EntryDate = dt, e_S3Key = s3Key,
                   e_GitCommitHash = Some commitHash,
                   e_WordCount = Some (of_nat wordCount),
                   e_CreatedAt = 0, e_UpdatedAt = 0\<rparr> in
      case CreateJournalEntry E (store s) entry of
        (st, Inl e) \<Rightarrow>
          (s\<lparr>store := st, s3 := bestEffortDelete E (s3 s) s3Key\<rparr>,
           Inl (''failed to save entry: '' @ e))
      | (st, Inr createdEntry) \<Rightarrow>
     (let version = systemVersion E (e_ID createdEntry) commitHash (''Entry for '' @ entryDate) in
      case CreateJournalVersion E st version of
        (st, r) \<Rightarrow> (s\<lparr>store := st\<rparr>, Inr createdEntry))))))))"

definition GetEntry ::
  "env \<Rightarrow> Service \<Rightarrow> string \<Rightarrow> string \<Rightarrow> string \<Rightarrow> err + JournalEntry \<times> bytes" where
  "GetEntry E s userSub journalID entryDate =
     (case parseDate entryDate of
        Inl e \<Rightarrow> Inl (''invalid date format: '' @ e)
      | Inr dt \<Rightarrow>
     (case GetJournalEntryByDate E (store s) journalID dt of
        Inl e \<Rightarrow> Inl (''entry not found: '' @ e)
      | Inr entry \<Rightarrow>
     (case GetJournal E (store s) journalID userSub of
        Inl e \<Rightarrow> Inl (''journal not found: '' @ e)
      | Inr j \<Rightarrow>
     (case Download E (s3 s) (e_S3Key entry) of
        Inl e \<Rightarrow> Inl (''failed to download from S3: '' @ e)
      | Inr content \<Rightarrow> Inr (entry, content)))))"

definition UpdateEntry ::
  "env \<Rightarrow> Service \<Rightarrow> string \<Rightarrow> string \<Rightarrow> string \<Rightarrow> string \<Rightarrow> Service \<times> (err + JournalEntry)" where
  "UpdateEntry E s userSub journalID entryDate content =
     (case parseDate entryDate of
        Inl e \<Rightarrow> (s, Inl (''invalid date format: '' @ e))
      | Inr dt \<Rightarrow>
     (case GetJournalEntryByDate E (store s) journalID dt of
        Inl e \<Rightarrow> (s, Inl (''entry not found: '' @ e))
      | Inr entry \<Rightarrow>
     (case GetJournal E (store s) journalID userSub of
        Inl e \<Rightarrow> (s, Inl (''journal not found: '' @ e))
      | Inr j \<Rightarrow>
     (let content = sanitizeMarkdown content;
          wordCount = countWords content in
      case Upload E (s3 s) (e_S3Key entry) content of
        Inl e \<Rightarrow> (s, Inl (''failed to upload to S3: '' @ e))
      | Inr b \<Rightarrow>
     (let s = s\<lparr>s3 := b\<rparr> in
      case CommitFile E (git s) userSub journalID entryDate content
             (''Update entry for '' @ entryDate) of
        (g, Inl e) \<Rightarrow> (s\<lparr>git := g\<rparr>, Inl (''failed to commit to Git: '' @ e))
      | (g, Inr commitHash) \<Rightarrow>
     (let s = s\<lparr>git := g\<rparr>;
          entry = entry\<lparr>e_GitCommitHash := Some commitHash,
                        e_WordCount := Some (of_nat wordCount)\<rparr> in
      case UpdateJournalEntry E (store s) entry of
        (st, Inl e) \<Rightarrow> (s\<lparr>store := st\<rparr>, Inl (''failed to update entry: '' @ e))
      | (st, Inr u) \<Rightarrow>
     (let version = systemVersion E (e_ID entry) commitHash (''Update entry for '' @ entryDate) in
      case CreateJournalVersion E st version of
        (st, r) \<Rightarrow> (s\<lparr>store := st\<rparr>, Inr entry))))))))"

definition DeleteEntry ::
  "env \<Rightarrow> Service \<Rightarrow> string \<Rightarrow> string \<Rightarrow> string \<Rightarrow> Service \<times> (err + unit)" where
  "DeleteEntry E s userSub journalID entryDate =
     (case parseDate entryDate of
        Inl e \<Rightarrow> (s, Inl (''invalid date format: '' @ e))
      | Inr dt \<Rightarrow>
     (case GetJournalEntryByDate E (store s) journalID dt of
        Inl e \<Rightarrow> (s, Inl (''entry not found: '' @ e))
      | Inr entry \<Rightarrow>
     (case GetJournal E (store s) journalID userSub of
        Inl e \<Rightarrow> (s, Inl (''journal not found: '' @ e))
      | Inr j \<Rightarrow>
     (let s = s\<lparr>s3 := bestEffortDelete E (s3 s) (e_S3Key entry)\<rparr> in
      case DeleteJournalEntry E (store s) (e_ID entry) of
        (st, r) \<Rightarrow> (s\<lparr>store := st\<rparr>, r)))))"

text \<open>The loop of \<^verbatim>\<open>DeleteJournal\<close> over the journal's entries.\<close>

fun deleteBlobs :: "env \<Rightarrow> string \<Rightarrow> string \<Rightarrow> JournalEntry list \<Rightarrow> bucket \<Rightarrow> bucket" where
  "deleteBlobs E userSub ident [] b = b"
| "deleteBlobs E userSub ident (entry # rest) b =
     (let entryDate = formatDate (e_EntryDate entry);
          s3Key = GenerateKey userSub ident entryDate
      in deleteBlobs E userSub ident rest (bestEffortDelete E b s3Key))"

definition DeleteJournal ::
  "env \<Rightarrow> Service \<Rightarrow> string \<Rightarrow> string \<Rightarrow> Service \<times> (err + unit)" where
  "DeleteJournal E s ident userSub =
     (case ListJournalEntries E (store s) ident of
        Inl e \<Rightarrow> (s, Inl (''failed to list entries: '' @ e))
      | Inr es \<Rightarrow>
     (let s = s\<lparr>s3 := deleteBlobs E userSub ident es (s3 s)\<rparr> in
      case StoreDeleteJournal E (store s) ident userSub of
        (st, r) \<Rightarrow> (s\<lparr>store := st\<rparr>, r)))"

definition ListVersions ::
  "env \<Rightarrow> Service \<Rightarrow> string \<Rightarrow> string \<Rightarrow> string \<Rightarrow> Service \<times> (err + CommitInfo list)" where
  "ListVersions E s userSub journalID entryDate =
     (case GetJournal E (store s) journalID userSub of
        Inl e \<Rightarrow> (s, Inl (''journal not found: '' @ e))
      | Inr j \<Rightarrow>
     (case ListCommits E (git s) userSub journalID entryDate of
        (g, r) \<Rightarrow> (s\<lparr>git := g\<rparr>, r)))"

definition GetVersion ::
  "env \<Rightarrow> Service \<Rightarrow> string \<Rightarrow> string \<Rightarrow> string \<Rightarrow> hash option \<Rightarrow> Service \<times> (err + bytes)" where
  "GetVersion E s userSub journalID entryDate commitHash =
     (case GetJournal E (store s) journalID userSub of
        Inl e \<Rightarrow> (s, Inl (''journal not found: '' @ e))
      | Inr j \<Rightarrow>
     (case GetFileContent E (git s) userSub journalID entryDate commitHash of
        (g, r) \<Rightarrow> (s\<lparr>git := g\<rparr>, r)))"

section \<open>handlers.go: the entry handlers\<close>

text \<open>
  A handler reads the \<^verbatim>\<open>X-User-Sub\<close> header, the URL parameters and the JSON body
  (\<open>None\<close> when it does not decode), and answers with a status.
\<close>

record CreateEntryRequest =
  cr_EntryDate :: string
  cr_Content :: string

record UpdateEntryRequest =
  ur_Content :: string

datatype response = HttpError nat string | HttpJSON nat JournalEntry

definition StatusBadRequest :: nat where "StatusBadRequest = 400"
definition StatusUnauthorized :: nat where "StatusUnauthorized = 401"
definition StatusNotFound :: nat where "StatusNotFound = 404"
definition StatusConflict :: nat where "StatusConflict = 409"
definition StatusInternalServerError :: nat where "StatusInternalServerError = 500"
definition StatusOK :: nat where "StatusOK = 200"
definition StatusCreated :: nat where "StatusCreated = 201"

definition handleCreateEntry ::
  "env \<Rightarrow> Service \<Rightarrow> string \<Rightarrow> string \<Rightarrow> CreateEntryRequest option \<Rightarrow> Service \<times> response" where
  "handleCreateEntry E s userSub journalID body =
     (if userSub = [] then (s, HttpError StatusUnauthorized ''Unauthorized'')
      else case body of
        None \<Rightarrow> (s, HttpError StatusBadRequest ''Invalid request body'')
      | Some req \<Rightarrow>
          if cr_EntryDate req = [] then (s, HttpError StatusBadRequest ''entry_date is required'')
          else if cr_Content req = [] then (s, HttpError StatusBadRequest ''content is required'')
          else (case CreateEntry E s userSub journalID (cr_EntryDate req) (cr_Content req) of
                  (s, Inl e) \<Rightarrow>
                    if contains e ''already exists'' then (s, HttpError StatusConflict e)
                    else if contains e ''not found'' then (s, HttpError StatusNotFound e)
                    else (s, HttpError StatusInternalServerError e)
                | (s, Inr entry) \<Rightarrow> (s, HttpJSON StatusCreated entry)))"

definition handleUpdateEntry ::
  "env \<Rightarrow> Service \<Rightarrow> string \<Rightarrow> string \<Rightarrow> string \<Rightarrow> UpdateEntryRequest option \<Rightarrow> Service \<times> response" where
  "handleUpdateEntry E s userSub journalID entryDate body =
     (if userSub = [] then (s, HttpError StatusUnauthorized ''Unauthorized'')
      else case body of
        None \<Rightarrow> (s, HttpError StatusBadRequest ''Invalid request body'')
      | Some req \<Rightarrow>
          if ur_Content req = [] then (s, HttpError StatusBadRequest ''content is required'')
          else (case UpdateEntry E s userSub journalID entryDate (ur_Content req) of
                  (s, Inl e) \<Rightarrow>
                    if contains e ''not found'' then (s, HttpError StatusNotFound e)
                    else (s, HttpError StatusInternalServerError e)
                | (s, Inr entry) \<Rightarrow> (s, HttpJSON StatusOK entry)))"


section \<open>Properties of the repositories\<close>

text \<open>The user's repository exists and has a HEAD; every repository has a HEAD.\<close>

definition hasHead :: "gitroot \<Rightarrow> string \<Rightarrow> bool" where
  "hasHead g userSub =
     (case map_of g userSub of None \<Rightarrow> False | Some repo \<Rightarrow> commits repo \<noteq> [])"

definition allHeads :: "gitroot \<Rightarrow> bool" where
  "allHeads g = list_all (\<lambda>(u, repo). commits repo \<noteq> []) g"

text \<open>What a complete initialisation leaves: one commit, of the empty file \<^verbatim>\<open>.gitkeep\<close>.\<close>

definition initialRepo :: "env \<Rightarrow> Repository" where
  "initialRepo E =
     \<lparr>commits = [\<lparr>c_Hash = 0, c_Message = ''Initial commit'',
                   c_AuthorName = ''LifeLogger System'',
                   c_AuthorEmail = ''system@lifelogger.life'',
                   c_When = now E, c_Tree = [(''.gitkeep'', [])]\<rparr>],
      index = [(''.gitkeep'', [])], worktree = [(''.gitkeep'', [])]\<rparr>"

text \<open>No call of the initialisation that follows \<^verbatim>\<open>PlainInit\<close> fails.\<close>

definition initCompletes :: "env \<Rightarrow> bool" where
  "initCompletes E =
     (fails E GitInitWorktree = None \<and> fails E GitkeepWriteFile = None \<and>
      fails E GitkeepAdd = None \<and> fails E GitInitialCommit = None)"

text \<open>The \<^verbatim>\<open>CommitInfo\<close> that \<^verbatim>\<open>ListCommits\<close> builds from a commit.\<close>

definition infoOf :: "Commit \<Rightarrow> CommitInfo" where
  "infoOf c = \<lparr>ci_Hash = c_Hash c, ci_Message = c_Message c,
               ci_AuthorName = c_AuthorName c, ci_AuthorEmail = c_AuthorEmail c,
               ci_CreatedAt = c_When c\<rparr>"

definition touches :: "string \<Rightarrow> Commit \<Rightarrow> bool" where
  "touches filePath c = (map_of (c_Tree c) filePath \<noteq> None)"

section \<open>Example states\<close>

text \<open>An environment in which no call fails, read at clock time \<open>n\<close>.\<close>

definition noFaults :: "nat \<Rightarrow> env" where
  "noFaults n = \<lparr>now = n, fails = (\<lambda>c. None)\<rparr>"

text \<open>An environment in which \<^verbatim>\<open>Worktree.Commit\<close> of an entry fails.\<close>

definition commitFails :: "nat \<Rightarrow> env" where
  "commitFails n = \<lparr>now = n, fails = (\<lambda>c. None)(GitCommit \<mapsto> ''disk full'')\<rparr>"

text \<open>User \<open>u\<close> owns the journal \<open>J\<close>; nothing else is stored.\<close>

definition exJournal :: Journal where
  "exJournal = \<lparr>j_ID = ''J'', j_UserSub = ''u'', j_Title = ''T'',
                j_Description = None, j_CreatedAt = 0, j_UpdatedAt = 0\<rparr>"

definition exInit :: Service where
  "exInit = \<lparr>store = \<lparr>journals = [exJournal], entries = [], versions = []\<rparr>,
             s3 = [], git = []\<rparr>"



text \<open>
  A run without failures: an entry for 2025-12-01 with content \<open>A\<close>, then an entry for
  2025-12-02 with content \<open>B\<close>, then an update of the first entry with \<open>A\<close> again; and,
  from the first state, the delete of the first entry.
\<close>

definition exCreated :: Service where
  "exCreated = fst (CreateEntry (noFaults 1) exInit ''u'' ''J'' ''2025-12-01'' ''A'')"

definition exCreated2 :: Service where
  "exCreated2 = fst (CreateEntry (noFaults 2) exCreated ''u'' ''J'' ''2025-12-02'' ''B'')"

definition exUpdated :: Service where
  "exUpdated = fst (UpdateEntry (noFaults 3) exCreated2 ''u'' ''J'' ''2025-12-01'' ''A'')"


definition exRepo2 :: Repository where
  "exRepo2 = snd (hd (git exCreated2))"

definition exEntry1 :: JournalEntry where
  "exEntry1 = \<lparr>e_ID = ''journal-1'', e_JournalID = ''J'', e_EntryDate = (2025, 12, 1),
               e_S3Key = ''u/J/2025-12-01.md'', e_GitCommitHash = Some 1,
               e_WordCount = Some 1, e_CreatedAt = 1, e_UpdatedAt = 1\<rparr>"



definition versionInsertFails :: "nat \<Rightarrow> env" where
  "versionInsertFails n =
     \<lparr>now = n, fails = (\<lambda>c. None)(DbInsertVersion \<mapsto> ''connection reset'')\<rparr>"

definition initialCommitFails :: "nat \<Rightarrow> env" where
  "initialCommitFails n =
     \<lparr>now = n, fails = (\<lambda>c. None)(GitInitialCommit \<mapsto> ''disk full'')\<rparr>"


text \<open>The store of the example once the row of the first entry is inserted.\<close>

definition exStoreWithEntry :: Store where
  "exStoreWithEntry = \<lparr>journals = [exJournal], entries = [exEntry1], versions = []\<rparr>"

text \<open>A root directory after an initialisation whose initial commit failed.\<close>

definition exHalfInit :: gitroot where
  "exHalfInit = [(''u'', \<lparr>commits = [], index = [(''.gitkeep'', [])],
                           worktree = [(''.gitkeep'', [])]\<rparr>)]"

section \<open>Lemmas on lists and files\<close>



lemma sorted_map_filter:
  "sorted (map f xs) \<Longrightarrow> sorted (map f (filter P xs))"
  by (induction xs) auto

lemma map_of_update_same [simp]: "map_of (AList.update k v al) k = Some v"
  by (simp add: update_conv')

lemma list_all_update:
  "list_all P al \<Longrightarrow> P (k, v) \<Longrightarrow> list_all P (AList.update k v al)"
  by (induction al) auto

lemma sameFiles_lookup:
  "sameFiles a b \<Longrightarrow> map_of b p = Some v \<Longrightarrow> map_of a p = Some v"
  unfolding sameFiles_def
  by (metis Un_iff map_of_SomeD set_append set_map image_eqI fst_conv)

lemma sameFiles_lookup2:
  "sameFiles a b \<Longrightarrow> map_of a p = Some v \<Longrightarrow> map_of b p = Some v"
  unfolding sameFiles_def
  by (metis Un_iff map_of_SomeD set_append set_map image_eqI fst_conv)



section \<open>Normalisation\<close>




section \<open>Lemmas on the store\<close>



lemma CreateJournalEntry_versions:
  "versions (fst (CreateJournalEntry E st entry)) = versions st"
  by (simp add: CreateJournalEntry_def Let_def split: option.splits)

lemma UpdateJournalEntry_versions:
  "versions (fst (UpdateJournalEntry E st entry)) = versions st"
  by (simp add: UpdateJournalEntry_def split: option.splits)

lemma UpdateJournalEntry_journals:
  "UpdateJournalEntry E st en = (st', r) \<Longrightarrow> journals st' = journals st"
  by (auto simp: UpdateJournalEntry_def split: option.splits)

lemma CreateJournalVersion_frame:
  "entries (fst (CreateJournalVersion E st v)) = entries st \<and>
   journals (fst (CreateJournalVersion E st v)) = journals st"
  by (simp add: CreateJournalVersion_def Let_def split: option.splits)

lemma CreateJournalVersion_journals:
  "CreateJournalVersion E st v = (st', r) \<Longrightarrow> journals st' = journals st"
  using CreateJournalVersion_frame[of E st v] by simp

lemma CreateJournalVersion_versions:
  "(fst (CreateJournalVersion E st v))\<lparr>versions := versions st\<rparr> = st"
  by (simp add: CreateJournalVersion_def Let_def split: option.splits)

section \<open>Lemmas on the repositories\<close>

lemma GetOrInitRepo_Inr:
  assumes "GetOrInitRepo E g u = (g', Inr repo)"
  shows "(map_of g u = Some repo \<and> g' = g) \<or>
         (map_of g u = None \<and> commits repo \<noteq> [] \<and> g' = AList.update u repo g)"
  using assms
  by (auto simp: GetOrInitRepo_def Let_def wtCommit_def split: option.splits)

lemma CommitFile_Inr:
  assumes "CommitFile E g u j d content m = (g', Inr h)"
  shows "\<exists>repo c cs. map_of g' u = Some repo \<and> commits repo = c # cs \<and> c_Hash c = h \<and>
           map_of (c_Tree c) (entryPath j d) = Some content"
proof -
  obtain g1 repo where g1: "GetOrInitRepo E g u = (g1, Inr repo)"
    using assms by (auto simp: CommitFile_def split: prod.splits sum.splits)
  define r2 where
    "r2 = repo\<lparr>worktree := AList.update (entryPath j d) content (worktree repo),
               index := AList.update (entryPath j d) content (index repo)\<rparr>"
  show ?thesis
  proof (cases "IsClean r2")
    case True
    with assms g1 obtain c cs where
      c: "commits r2 = c # cs" "h = c_Hash c" "g' = AList.update u r2 g1"
      by (auto simp: CommitFile_def Let_def r2_def Head_def
          split: option.splits sum.splits list.splits)
    from True have "sameFiles (headTree r2) (index r2)" by (simp add: IsClean_def)
    moreover have "map_of (index r2) (entryPath j d) = Some content" by (simp add: r2_def)
    ultimately have "map_of (headTree r2) (entryPath j d) = Some content"
      by (rule sameFiles_lookup)
    with c show ?thesis by (simp add: headTree_def)
  next
    case False
    with assms g1 have
      "g' = AList.update u (wtCommit E r2 (if m = [] then ''Entry for '' @ d else m)) g1"
      "h = length (commits r2)"
      by (auto simp: CommitFile_def Let_def r2_def split: option.splits sum.splits)
    then show ?thesis by (simp add: wtCommit_def r2_def)
  qed
qed

lemma allHeads_update:
  "allHeads g \<Longrightarrow> commits repo \<noteq> [] \<Longrightarrow> allHeads (AList.update u repo g)"
  by (simp add: allHeads_def list_all_update)

lemma allHeads_lookup:
  "allHeads g \<Longrightarrow> map_of g u = Some repo \<Longrightarrow> commits repo \<noteq> []"
  by (auto simp: allHeads_def list_all_iff dest: map_of_SomeD)

lemma GetOrInitRepo_allHeads:
  assumes "allHeads g" "GetOrInitRepo E g u = (g', Inr repo)"
  shows "allHeads g' \<and> commits repo \<noteq> []"
  using GetOrInitRepo_Inr[OF assms(2)] assms(1)
  by (auto simp: allHeads_update allHeads_lookup)

lemma GetOrInitRepo_hasHead:
  assumes "GetOrInitRepo E g u = (g', Inr repo)" "commits repo \<noteq> []"
  shows "hasHead g' u"
  using GetOrInitRepo_Inr[OF assms(1)] assms(2) by (auto simp: hasHead_def)

lemma CommitFile_allHeads:
  assumes "allHeads g" "CommitFile E g u j d content m = (g', Inr h)"
  shows "allHeads g'"
proof -
  obtain g1 repo where g1: "GetOrInitRepo E g u = (g1, Inr repo)"
    using assms by (auto simp: CommitFile_def split: prod.splits sum.splits)
  have a1: "allHeads g1" "commits repo \<noteq> []"
    using GetOrInitRepo_allHeads[OF assms(1) g1] by auto
  show ?thesis using assms(2) g1 a1
    by (auto simp: CommitFile_def Let_def Head_def wtCommit_def intro!: allHeads_update
        split: option.splits sum.splits list.splits if_splits)
qed

lemma GetFileContent_Inr:
  assumes "GetFileContent E g u j d ch = (g', Inr b)"
  shows "\<exists>repo. GetOrInitRepo E g u = (g', Inr repo) \<and> commits repo \<noteq> []"
  using assms
  by (auto simp: GetFileContent_def Head_def
      split: prod.splits sum.splits option.splits list.splits)

lemma ListCommits_Inr:
  assumes "ListCommits E g u j d = (g', Inr l)"
  shows "\<exists>repo. GetOrInitRepo E g u = (g', Inr repo) \<and> commits repo \<noteq> []"
  using assms
  by (auto simp: ListCommits_def Head_def
      split: prod.splits sum.splits option.splits list.splits)

lemma forEachCommit_no_failure:
  "fails E GitCommitTree = None \<Longrightarrow> fails E GitTreeFile = None \<Longrightarrow>
   forEachCommit E p cs acc = (acc @ map infoOf (filter (touches p) cs), None)"
  by (induction cs arbitrary: acc) (auto simp: infoOf_def touches_def split: option.splits)

section \<open>Lemmas on the service\<close>




section \<open>Create, then read\<close>



section \<open>A second create\<close>




section \<open>Failure of the commit in CreateEntry\<close>

text \<open>
  Claim C4. In \<^verbatim>\<open>CreateEntry\<close>, when the date parses, the journal is the user's, no
  entry is found, the upload succeeds and the commit to the repository then fails with
  an error \<open>ge\<close>: the operation returns exactly "failed to commit to Git: " followed by
  \<open>ge\<close>, whether or not the compensating delete fails. The blob is deleted when the
  delete succeeds and stays as uploaded when the delete fails; the metadata store is
  untouched.
\<close>

theorem commit_failure_compensation:
  assumes "parseDate entryDate = Inr dt"
    and "GetJournal E (store s) journalID userSub = Inr jr"
    and "GetJournalEntryByDate E (store s) journalID dt = Inl x"
    and "fails E S3PutObject = None"
    and "CommitFile E (git s) userSub journalID entryDate (sanitizeMarkdown content)
           (''Entry for '' @ entryDate) = (g, Inl ge)"
  shows "CreateEntry E s userSub journalID entryDate content =
           (s\<lparr>git := g,
              s3 := (if fails E (S3DeleteObject (GenerateKey userSub journalID entryDate)) = None
                     then AList.delete (GenerateKey userSub journalID entryDate) (s3 s)
                     else AList.update (GenerateKey userSub journalID entryDate)
                            (sanitizeMarkdown content) (s3 s))\<rparr>,
            Inl (''failed to commit to Git: '' @ ge))"
  using assms
  by (auto simp: CreateEntry_def Let_def Upload_def bestEffortDelete_def Delete_def
      delete_update_same split: option.splits)

theorem commit_failure_compensation_witness:
  "parseDate ''2025-12-01'' = Inr (2025, 12, 1) \<and>
   GetJournal (commitFails 7) (store exInit) ''J'' ''u'' = Inr exJournal \<and>
   GetJournalEntryByDate (commitFails 7) (store exInit) ''J'' (2025, 12, 1) = Inl ErrNoRows \<and>
   fails (commitFails 7) S3PutObject = None \<and>
   snd (CommitFile (commitFails 7) (git exInit) ''u'' ''J'' ''2025-12-01''
          (sanitizeMarkdown ''A'') (''Entry for '' @ ''2025-12-01'')) =
     Inl ''failed to commit: disk full'' \<and>
   snd (CreateEntry (commitFails 7) exInit ''u'' ''J'' ''2025-12-01'' ''A'') =
     Inl ''failed to commit to Git: failed to commit: disk full'' \<and>
   s3 (fst (CreateEntry (commitFails 7) exInit ''u'' ''J'' ''2025-12-01'' ''A'')) = []"
proof -
  have p: "parseDate ''2025-12-01'' = Inr (2025, 12, 1)" by code_simp
  have j: "GetJournal (commitFails 7) (store exInit) ''J'' ''u'' = Inr exJournal" by code_simp
  have n: "GetJournalEntryByDate (commitFails 7) (store exInit) ''J'' (2025, 12, 1) = Inl ErrNoRows"
    by code_simp
  have u: "fails (commitFails 7) S3PutObject = None" by (simp add: commitFails_def)
  have d: "fails (commitFails 7) (S3DeleteObject (GenerateKey ''u'' ''J'' ''2025-12-01'')) = None"
    by (simp add: commitFails_def)
  have c: "CommitFile (commitFails 7) (git exInit) ''u'' ''J'' ''2025-12-01''
             (sanitizeMarkdown ''A'') (''Entry for '' @ ''2025-12-01'') =
           (fst (CommitFile (commitFails 7) (git exInit) ''u'' ''J'' ''2025-12-01''
                  (sanitizeMarkdown ''A'') (''Entry for '' @ ''2025-12-01'')),
            Inl ''failed to commit: disk full'')"
    by code_simp
  have e: "s3 exInit = []" by (simp add: exInit_def)
  have c1: "snd (CommitFile (commitFails 7) (git exInit) ''u'' ''J'' ''2025-12-01''
             (sanitizeMarkdown ''A'') (''Entry for '' @ ''2025-12-01'')) =
           Inl ''failed to commit: disk full''"
    using c by (metis snd_conv)
  from commit_failure_compensation[OF p j n u c]
  have "snd (CreateEntry (commitFails 7) exInit ''u'' ''J'' ''2025-12-01'' ''A'') =
          Inl ''failed to commit to Git: failed to commit: disk full''"
    and "s3 (fst (CreateEntry (commitFails 7) exInit ''u'' ''J'' ''2025-12-01'' ''A'')) = []"
    by (simp_all add: d e)
  with p j n u c1 show ?thesis by blast
qed

section \<open>Failure of the version row\<close>

lemma CreateJournalVersion_Inl:
  "CreateJournalVersion E st v = (st', Inl x) \<Longrightarrow> st' = st"
  by (auto simp: CreateJournalVersion_def Let_def split: option.splits if_splits)

text \<open>
  Claim C5. Whenever \<^verbatim>\<open>CreateEntry\<close> has passed its checks, uploaded the blob,
  committed and inserted the entry row, and the insert of the version row then returns an
  error (a failure of the call or a constraint of the table, whatever the error), the
  operation returns the created entry: the blob, the commit and the entry row stay, the
  store is the one left by the insert of the entry, and the error of the version insert
  appears nowhere. The same holds for \<^verbatim>\<open>UpdateEntry\<close> after its upload, commit and
  update of the entry row: it returns the updated entry.
\<close>

theorem version_failure_not_fatal:
  "(parseDate entryDate = Inr dt \<and>
    GetJournal E (store s) journalID userSub = Inr jr \<and>
    GetJournalEntryByDate E (store s) journalID dt = Inl x \<and>
    Upload E (s3 s) (GenerateKey userSub journalID entryDate) (sanitizeMarkdown content) = Inr b \<and>
    CommitFile E (git s) userSub journalID entryDate (sanitizeMarkdown content)
      (''Entry for '' @ entryDate) = (g, Inr h) \<and>
    CreateJournalEntry E (store s)
      \<lparr>e_ID = [], e_JournalID = journalID, e_EntryDate = dt,
       e_S3Key = GenerateKey userSub journalID entryDate,
       e_GitCommitHash = Some h,
       e_WordCount = Some (of_nat (countWords (sanitizeMarkdown content))),
       e_CreatedAt = 0, e_UpdatedAt = 0\<rparr> = (st, Inr created) \<and>
    CreateJournalVersion E st
      (systemVersion E (e_ID created) h (''Entry for '' @ entryDate)) = (st', Inl verr)
    \<longrightarrow>
    CreateEntry E s userSub journalID entryDate content =
      (s\<lparr>s3 := b, git := g, store := st\<rparr>, Inr created)) \<and>
   (parseDate entryDateU = Inr dtU \<and>
    GetJournalEntryByDate EU (store sU) journalIDU dtU = Inr entry \<and>
    GetJournal EU (store sU) journalIDU userSubU = Inr jrU \<and>
    Upload EU (s3 sU) (e_S3Key entry) (sanitizeMarkdown contentU) = Inr bU \<and>
    CommitFile EU (git sU) userSubU journalIDU entryDateU (sanitizeMarkdown contentU)
      (''Update entry for '' @ entryDateU) = (gU, Inr hU) \<and>
    UpdateJournalEntry EU (store sU)
      (entry\<lparr>e_GitCommitHash := Some hU,
             e_WordCount := Some (of_nat (countWords (sanitizeMarkdown contentU)))\<rparr>) =
      (stU, Inr ()) \<and>
    CreateJournalVersion EU stU
      (systemVersion EU (e_ID entry) hU (''Update entry for '' @ entryDateU)) = (stV, Inl verrU)
    \<longrightarrow>
    UpdateEntry EU sU userSubU journalIDU entryDateU contentU =
      (sU\<lparr>s3 := bU, git := gU, store := stU\<rparr>,
       Inr (entry\<lparr>e_GitCommitHash := Some hU,
                  e_WordCount := Some (of_nat (countWords (sanitizeMarkdown contentU)))\<rparr>)))"
proof (intro conjI impI)
  assume a: "parseDate entryDate = Inr dt \<and>
    GetJournal E (store s) journalID userSub = Inr jr \<and>
    GetJournalEntryByDate E (store s) journalID dt = Inl x \<and>
    Upload E (s3 s) (GenerateKey userSub journalID entryDate) (sanitizeMarkdown content) = Inr b \<and>
    CommitFile E (git s) userSub journalID entryDate (sanitizeMarkdown content)
      (''Entry for '' @ entryDate) = (g, Inr h) \<and>
    CreateJournalEntry E (store s)
      \<lparr>e_ID = [], e_JournalID = journalID, e_EntryDate = dt,
       e_S3Key = GenerateKey userSub journalID entryDate,
       e_GitCommitHash = Some h,
       e_WordCount = Some (of_nat (countWords (sanitizeMarkdown content))),
       e_CreatedAt = 0, e_UpdatedAt = 0\<rparr> = (st, Inr created) \<and>
    CreateJournalVersion E st
      (systemVersion E (e_ID created) h (''Entry for '' @ entryDate)) = (st', Inl verr)"
  then have "st' = st" using CreateJournalVersion_Inl by blast
  with a show "CreateEntry E s userSub journalID entryDate content =
      (s\<lparr>s3 := b, git := g, store := st\<rparr>, Inr created)"
    by (simp add: CreateEntry_def Let_def)
next
  assume a: "parseDate entryDateU = Inr dtU \<and>
    GetJournalEntryByDate EU (store sU) journalIDU dtU = Inr entry \<and>
    GetJournal EU (store sU) journalIDU userSubU = Inr jrU \<and>
    Upload EU (s3 sU) (e_S3Key entry) (sanitizeMarkdown contentU) = Inr bU \<and>
    CommitFile EU (git sU) userSubU journalIDU entryDateU (sanitizeMarkdown contentU)
      (''Update entry for '' @ entryDateU) = (gU, Inr hU) \<and>
    UpdateJournalEntry EU (store sU)
      (entry\<lparr>e_GitCommitHash := Some hU,
             e_WordCount := Some (of_nat (countWords (sanitizeMarkdown contentU)))\<rparr>) =
      (stU, Inr ()) \<and>
    CreateJournalVersion EU stU
      (systemVersion EU (e_ID entry) hU (''Update entry for '' @ entryDateU)) = (stV, Inl verrU)"
  then have "stV = stU" using CreateJournalVersion_Inl by blast
  with a show "UpdateEntry EU sU userSubU journalIDU entryDateU contentU =
      (sU\<lparr>s3 := bU, git := gU, store := stU\<rparr>,
       Inr (entry\<lparr>e_GitCommitHash := Some hU,
                  e_WordCount := Some (of_nat (countWords (sanitizeMarkdown contentU)))\<rparr>))"
    by (simp add: UpdateEntry_def Let_def)
qed

text \<open>
  The witness: a create whose version insert fails as a call, and an update with the same
  content whose version insert is refused by the constraint \<open>UNIQUE(entry_id, commit_hash)\<close>.
\<close>

theorem version_failure_not_fatal_witness:
  "CreateJournalVersion (versionInsertFails 1) exStoreWithEntry
     (systemVersion (versionInsertFails 1) (e_ID exEntry1) 1 (''Entry for '' @ ''2025-12-01'')) =
     (exStoreWithEntry, Inl ''connection reset'') \<and>
   CreateEntry (versionInsertFails 1) exInit ''u'' ''J'' ''2025-12-01'' ''A'' =
     (exInit\<lparr>s3 := s3 exCreated, git := git exCreated, store := exStoreWithEntry\<rparr>,
      Inr exEntry1) \<and>
   CreateJournalVersion (noFaults 2)
     (fst (UpdateJournalEntry (noFaults 2) (store exCreated) exEntry1))
     (systemVersion (noFaults 2) (e_ID exEntry1) 1 (''Update entry for '' @ ''2025-12-01'')) =
     (fst (UpdateJournalEntry (noFaults 2) (store exCreated) exEntry1),
      Inl ''pq: duplicate key value violates unique constraint journal_versions_entry_id_commit_hash_key'') \<and>
   UpdateEntry (noFaults 2) exCreated ''u'' ''J'' ''2025-12-01'' ''A'' =
     (exCreated\<lparr>s3 := s3 exCreated, git := git exCreated,
                store := fst (UpdateJournalEntry (noFaults 2) (store exCreated) exEntry1)\<rparr>,
      Inr exEntry1)"
proof -
  have p: "parseDate ''2025-12-01'' = Inr (2025, 12, 1)" by code_simp
  have j: "GetJournal (versionInsertFails 1) (store exInit) ''J'' ''u'' = Inr exJournal"
    by code_simp
  have n: "GetJournalEntryByDate (versionInsertFails 1) (store exInit) ''J'' (2025, 12, 1) =
             Inl ErrNoRows"
    by code_simp
  have u: "Upload (versionInsertFails 1) (s3 exInit) (GenerateKey ''u'' ''J'' ''2025-12-01'')
             (sanitizeMarkdown ''A'') = Inr (s3 exCreated)"
    by code_simp
  have c: "CommitFile (versionInsertFails 1) (git exInit) ''u'' ''J'' ''2025-12-01''
             (sanitizeMarkdown ''A'') (''Entry for '' @ ''2025-12-01'') = (git exCreated, Inr 1)"
    by code_simp
  have e: "CreateJournalEntry (versionInsertFails 1) (store exInit)
      \<lparr>e_ID = [], e_JournalID = ''J'', e_EntryDate = (2025, 12, 1),
       e_S3Key = GenerateKey ''u'' ''J'' ''2025-12-01'',
       e_GitCommitHash = Some 1,
       e_WordCount = Some (of_nat (countWords (sanitizeMarkdown ''A''))),
       e_CreatedAt = 0, e_UpdatedAt = 0\<rparr> = (exStoreWithEntry, Inr exEntry1)"
    by code_simp
  have v: "CreateJournalVersion (versionInsertFails 1) exStoreWithEntry
     (systemVersion (versionInsertFails 1) (e_ID exEntry1) 1 (''Entry for '' @ ''2025-12-01'')) =
     (exStoreWithEntry, Inl ''connection reset'')"
    by code_simp
  have p2: "parseDate ''2025-12-01'' = Inr (2025, 12, 1)" by code_simp
  have n2: "GetJournalEntryByDate (noFaults 2) (store exCreated) ''J'' (2025, 12, 1) = Inr exEntry1"
    by code_simp
  have j2: "GetJournal (noFaults 2) (store exCreated) ''J'' ''u'' = Inr exJournal"
    by code_simp
  have u2: "Upload (noFaults 2) (s3 exCreated) (e_S3Key exEntry1) (sanitizeMarkdown ''A'') =
              Inr (s3 exCreated)"
    by code_simp
  have c2: "CommitFile (noFaults 2) (git exCreated) ''u'' ''J'' ''2025-12-01''
              (sanitizeMarkdown ''A'') (''Update entry for '' @ ''2025-12-01'') =
            (git exCreated, Inr 1)"
    by code_simp
  have w: "exEntry1\<lparr>e_GitCommitHash := Some 1,
                     e_WordCount := Some (of_nat (countWords (sanitizeMarkdown ''A'')))\<rparr> = exEntry1"
    by code_simp
  have e2: "UpdateJournalEntry (noFaults 2) (store exCreated)
      (exEntry1\<lparr>e_GitCommitHash := Some 1,
                e_WordCount := Some (of_nat (countWords (sanitizeMarkdown ''A'')))\<rparr>) =
      (fst (UpdateJournalEntry (noFaults 2) (store exCreated) exEntry1), Inr ())"
    unfolding w by code_simp
  have v2: "CreateJournalVersion (noFaults 2)
     (fst (UpdateJournalEntry (noFaults 2) (store exCreated) exEntry1))
     (systemVersion (noFaults 2) (e_ID exEntry1) 1 (''Update entry for '' @ ''2025-12-01'')) =
     (fst (UpdateJournalEntry (noFaults 2) (store exCreated) exEntry1),
      Inl ''pq: duplicate key value violates unique constraint journal_versions_entry_id_commit_hash_key'')"
    by code_simp
  note t = version_failure_not_fatal
    [where entryDate = "''2025-12-01''" and dt = "(2025, 12, 1)" and E = "versionInsertFails 1"
       and s = exInit and journalID = "''J''" and userSub = "''u''" and jr = exJournal
       and x = ErrNoRows and content = "''A''" and b = "s3 exCreated" and g = "git exCreated"
       and h = 1 and st = exStoreWithEntry and created = exEntry1 and st' = exStoreWithEntry
       and verr = "''connection reset''"
       and entryDateU = "''2025-12-01''" and dtU = "(2025, 12, 1)" and EU = "noFaults 2"
       and sU = exCreated and journalIDU = "''J''" and userSubU = "''u''" and entry = exEntry1
       and jrU = exJournal and contentU = "''A''" and bU = "s3 exCreated"
       and gU = "git exCreated" and hU = 1
       and stU = "fst (UpdateJournalEntry (noFaults 2) (store exCreated) exEntry1)"
       and stV = "fst (UpdateJournalEntry (noFaults 2) (store exCreated) exEntry1)"
       and verrU = "''pq: duplicate key value violates unique constraint journal_versions_entry_id_commit_hash_key''"]
  from t p j n u c e v
  have 1: "CreateEntry (versionInsertFails 1) exInit ''u'' ''J'' ''2025-12-01'' ''A'' =
     (exInit\<lparr>s3 := s3 exCreated, git := git exCreated, store := exStoreWithEntry\<rparr>,
      Inr exEntry1)"
    by blast
  from t p2 n2 j2 u2 c2 e2 v2
  have "UpdateEntry (noFaults 2) exCreated ''u'' ''J'' ''2025-12-01'' ''A'' =
     (exCreated\<lparr>s3 := s3 exCreated, git := git exCreated,
                store := fst (UpdateJournalEntry (noFaults 2) (store exCreated) exEntry1)\<rparr>,
      Inr (exEntry1\<lparr>e_GitCommitHash := Some 1,
                     e_WordCount := Some (of_nat (countWords (sanitizeMarkdown ''A'')))\<rparr>))"
    by blast
  then have 2: "UpdateEntry (noFaults 2) exCreated ''u'' ''J'' ''2025-12-01'' ''A'' =
     (exCreated\<lparr>s3 := s3 exCreated, git := git exCreated,
                store := fst (UpdateJournalEntry (noFaults 2) (store exCreated) exEntry1)\<rparr>,
      Inr exEntry1)"
    unfolding w .
  from v 1 v2 2 show ?thesis by blast
qed

section \<open>The list of versions\<close>

text \<open>
  Claim C6. When the journal is the user's, the user's repository opens with a HEAD and
  the calls of the walk do not fail, \<^verbatim>\<open>ListVersions\<close> returns the infos of exactly the
  commits of the history whose tree has a file at the entry's path, in the order of the
  history from the oldest commit to HEAD; where the commit times of the history do not
  decrease, neither do the times of the result.
\<close>

theorem list_versions_oldest_first:
  assumes "GetJournal E (store s) journalID userSub = Inr jr"
    and "GetOrInitRepo E (git s) userSub = (g, Inr repo)"
    and "commits repo \<noteq> []"
    and "fails E GitHead = None" and "fails E GitLog = None"
    and "fails E GitCommitTree = None" and "fails E GitTreeFile = None"
  shows "ListVersions E s userSub journalID entryDate =
           (s\<lparr>git := g\<rparr>,
            Inr (map infoOf (filter (touches (entryPath journalID entryDate))
                               (rev (commits repo))))) \<and>
         (sorted (map c_When (rev (commits repo))) \<longrightarrow>
          sorted (map ci_CreatedAt
                   (map infoOf (filter (touches (entryPath journalID entryDate))
                                  (rev (commits repo))))))"
proof -
  have "ListCommits E (git s) userSub journalID entryDate =
          (g, Inr (map infoOf (filter (touches (entryPath journalID entryDate))
                                 (rev (commits repo)))))"
  proof -
    obtain c cs where "commits repo = c # cs" using assms(3) by (cases "commits repo") auto
    then have "Head E repo = Inr c" using assms(4) by (simp add: Head_def)
    then show ?thesis
      using assms(2,5-7)
      by (simp add: ListCommits_def forEachCommit_no_failure rev_map rev_filter
          del: forEachCommit.simps)
  qed
  moreover have "ci_CreatedAt \<circ> infoOf = c_When"
    by (rule ext) (simp add: infoOf_def)
  ultimately show ?thesis
    using assms(1) by (simp add: ListVersions_def sorted_map_filter)
qed

theorem list_versions_oldest_first_witness:
  "GetJournal (noFaults 4) (store exCreated2) ''J'' ''u'' = Inr exJournal \<and>
   GetOrInitRepo (noFaults 4) (git exCreated2) ''u'' = (git exCreated2, Inr exRepo2) \<and>
   commits exRepo2 \<noteq> [] \<and>
   fails (noFaults 4) GitHead = None \<and> fails (noFaults 4) GitLog = None \<and>
   fails (noFaults 4) GitCommitTree = None \<and> fails (noFaults 4) GitTreeFile = None \<and>
   sorted (map c_When (rev (commits exRepo2))) \<and>
   map c_Hash (rev (commits exRepo2)) = [0, 1, 2] \<and>
   snd (ListVersions (noFaults 4) exCreated2 ''u'' ''J'' ''2025-12-02'') =
     Inr [\<lparr>ci_Hash = 2, ci_Message = ''Entry for 2025-12-02'',
           ci_AuthorName = ''LifeLogger System'',
           ci_AuthorEmail = ''system@lifelogger.life'', ci_CreatedAt = 2\<rparr>] \<and>
   map ci_Hash (map infoOf (filter (touches (entryPath ''J'' ''2025-12-01''))
                              (rev (commits exRepo2)))) = [1, 2] \<and>
   sorted (map ci_CreatedAt (map infoOf (filter (touches (entryPath ''J'' ''2025-12-02''))
                                           (rev (commits exRepo2)))))"
proof -
  have j: "GetJournal (noFaults 4) (store exCreated2) ''J'' ''u'' = Inr exJournal" by code_simp
  have r: "GetOrInitRepo (noFaults 4) (git exCreated2) ''u'' = (git exCreated2, Inr exRepo2)"
    by code_simp
  have c: "commits exRepo2 \<noteq> []" by code_simp
  have f: "fails (noFaults 4) GitHead = None" "fails (noFaults 4) GitLog = None"
    "fails (noFaults 4) GitCommitTree = None" "fails (noFaults 4) GitTreeFile = None"
    by (simp_all add: noFaults_def)
  have t: "sorted (map c_When (rev (commits exRepo2)))" by code_simp
  have h: "map c_Hash (rev (commits exRepo2)) = [0, 1, 2]" by code_simp
  have v: "map infoOf (filter (touches (entryPath ''J'' ''2025-12-02'')) (rev (commits exRepo2))) =
           [\<lparr>ci_Hash = 2, ci_Message = ''Entry for 2025-12-02'',
             ci_AuthorName = ''LifeLogger System'',
             ci_AuthorEmail = ''system@lifelogger.life'', ci_CreatedAt = 2\<rparr>]"
    by code_simp
  have w: "map ci_Hash (map infoOf (filter (touches (entryPath ''J'' ''2025-12-01''))
                              (rev (commits exRepo2)))) = [1, 2]"
    by code_simp
  from list_versions_oldest_first[OF j r c f, of "''2025-12-02''"] t
  have "snd (ListVersions (noFaults 4) exCreated2 ''u'' ''J'' ''2025-12-02'') =
          Inr (map infoOf (filter (touches (entryPath ''J'' ''2025-12-02''))
                             (rev (commits exRepo2))))"
    and "sorted (map ci_CreatedAt (map infoOf (filter (touches (entryPath ''J'' ''2025-12-02''))
                                           (rev (commits exRepo2)))))"
    by simp_all
  with j r c f t h v w show ?thesis by (simp only: simp_thms)
qed

section \<open>Frame properties of the deletes\<close>

text \<open>
  Claim C8. \<^verbatim>\<open>DeleteEntry\<close> and \<^verbatim>\<open>DeleteJournal\<close> never touch the version
  repositories: whatever the arguments, the stored state and the failures of the backend
  calls, the repositories of all users are after the operation what they were before, so
  no commit is ever removed by a delete.
\<close>

theorem deletes_keep_repositories:
  "git (fst (DeleteEntry E s userSub journalID entryDate)) = git s \<and>
   git (fst (DeleteJournal E s journalID userSub)) = git s"
  by (simp add: DeleteEntry_def DeleteJournal_def Let_def split: sum.splits prod.splits)

section \<open>Empty content is rejected by the handlers\<close>

text \<open>
  Claim C7. A create or update request whose decoded body has empty content never reaches
  the service: the handler returns with the state of all three backends unchanged (no
  blob, commit or row is written), and for an authenticated caller the answer is
  400 Bad Request, a client error.
\<close>

theorem empty_content_rejected:
  "cr_Content req = [] \<Longrightarrow> ur_Content ureq = [] \<Longrightarrow>
   fst (handleCreateEntry E s userSub journalID (Some req)) = s \<and>
   fst (handleUpdateEntry E s userSub journalID entryDate (Some ureq)) = s \<and>
   (userSub \<noteq> [] \<longrightarrow>
      (\<exists>m. snd (handleCreateEntry E s userSub journalID (Some req)) =
             HttpError StatusBadRequest m) \<and>
      snd (handleUpdateEntry E s userSub journalID entryDate (Some ureq)) =
        HttpError StatusBadRequest ''content is required'')"
  by (simp add: handleCreateEntry_def handleUpdateEntry_def)

theorem empty_content_rejected_witness:
  "cr_Content \<lparr>cr_EntryDate = ''2025-12-01'', cr_Content = []\<rparr> = [] \<and>
   ur_Content \<lparr>ur_Content = []\<rparr> = [] \<and> ''u'' \<noteq> [] \<and>
   fst (handleCreateEntry (noFaults 1) exInit ''u'' ''J''
          (Some \<lparr>cr_EntryDate = ''2025-12-01'', cr_Content = []\<rparr>)) = exInit \<and>
   fst (handleUpdateEntry (noFaults 1) exInit ''u'' ''J'' ''2025-12-01''
          (Some \<lparr>ur_Content = []\<rparr>)) = exInit \<and>
   snd (handleCreateEntry (noFaults 1) exInit ''u'' ''J''
          (Some \<lparr>cr_EntryDate = ''2025-12-01'', cr_Content = []\<rparr>)) =
     HttpError StatusBadRequest ''content is required'' \<and>
   snd (handleUpdateEntry (noFaults 1) exInit ''u'' ''J'' ''2025-12-01''
          (Some \<lparr>ur_Content = []\<rparr>)) =
     HttpError StatusBadRequest ''content is required''"
  using empty_content_rejected
    [of "\<lparr>cr_EntryDate = ''2025-12-01'', cr_Content = []\<rparr>" "\<lparr>ur_Content = []\<rparr>"
        "noFaults 1" exInit "''u''" "''J''" "''2025-12-01''"]
  by (simp add: handleCreateEntry_def)

section \<open>Every repository that is used has a HEAD\<close>

lemma GetOrInitRepo_keeps_heads:
  assumes "allHeads g" "initCompletes E"
  shows "allHeads (fst (GetOrInitRepo E g u))"
  using assms
  by (auto simp: GetOrInitRepo_def initCompletes_def Let_def wtCommit_def
      intro!: allHeads_update split: option.splits)

lemma GetFileContent_root:
  "fst (GetFileContent E g u j d ch) = fst (GetOrInitRepo E g u)"
  by (simp add: GetFileContent_def split: prod.splits sum.splits option.splits)

lemma ListCommits_root:
  "fst (ListCommits E g u j d) = fst (GetOrInitRepo E g u)"
  by (simp add: ListCommits_def split: prod.splits sum.splits option.splits)

lemma CommitFile_keeps_heads:
  assumes "allHeads g" "initCompletes E"
  shows "allHeads (fst (CommitFile E g u j d content m))"
proof (cases "GetOrInitRepo E g u")
  case (Pair g1 res)
  have a: "allHeads g1" using GetOrInitRepo_keeps_heads[OF assms, of u] Pair by simp
  show ?thesis
  proof (cases res)
    case (Inl e)
    then show ?thesis using Pair a by (simp add: CommitFile_def)
  next
    case (Inr repo)
    have "commits repo \<noteq> []"
      using GetOrInitRepo_allHeads[OF assms(1)] Pair Inr by blast
    then show ?thesis using Pair Inr a
      by (auto simp: CommitFile_def Let_def Head_def wtCommit_def intro!: allHeads_update
          split: option.splits sum.splits list.splits)
  qed
qed

text \<open>
  Claim C9, as amended. A user's repository is created on the first access: where the user has none
  and no call of the initialisation fails, \<^verbatim>\<open>GetOrInitRepo\<close> stores and returns a
  repository whose history is the single commit "Initial commit". Whenever
  \<^verbatim>\<open>CommitFile\<close>, \<^verbatim>\<open>GetFileContent\<close> or \<^verbatim>\<open>ListCommits\<close> completes successfully,
  from any state and whatever else fails, the user's repository exists afterwards and has
  a HEAD; and if every repository had a HEAD before, every repository has one after.
  Where the initialisation does not fail between \<^verbatim>\<open>PlainInit\<close> and the initial
  commit, the three operations keep "every repository has a HEAD" also when they fail.
\<close>

theorem repository_has_head:
  "(map_of g0 userSub = None \<and> fails E GitPlainOpen = None \<and> fails E GitPlainInit = None \<and>
    fails E GitInitWorktree = None \<and> fails E GitkeepWriteFile = None \<and>
    fails E GitkeepAdd = None \<and> fails E GitInitialCommit = None \<longrightarrow>
      GetOrInitRepo E g0 userSub =
        (AList.update userSub (initialRepo E) g0, Inr (initialRepo E))) \<and>
   (CommitFile E g userSub journalID entryDate content message = (g1, Inr h) \<longrightarrow>
      hasHead g1 userSub \<and> (allHeads g \<longrightarrow> allHeads g1)) \<and>
   (GetFileContent E g userSub journalID entryDate commitHash = (g2, Inr b) \<longrightarrow>
      hasHead g2 userSub \<and> (allHeads g \<longrightarrow> allHeads g2)) \<and>
   (ListCommits E g userSub journalID entryDate = (g3, Inr l) \<longrightarrow>
      hasHead g3 userSub \<and> (allHeads g \<longrightarrow> allHeads g3)) \<and>
   (allHeads g \<and> initCompletes E \<longrightarrow>
      allHeads (fst (CommitFile E g userSub journalID entryDate content message)) \<and>
      allHeads (fst (GetFileContent E g userSub journalID entryDate commitHash)) \<and>
      allHeads (fst (ListCommits E g userSub journalID entryDate)))"
proof (intro conjI impI)
  assume "map_of g0 userSub = None \<and> fails E GitPlainOpen = None \<and>
    fails E GitPlainInit = None \<and> fails E GitInitWorktree = None \<and>
    fails E GitkeepWriteFile = None \<and> fails E GitkeepAdd = None \<and>
    fails E GitInitialCommit = None"
  then show "GetOrInitRepo E g0 userSub =
               (AList.update userSub (initialRepo E) g0, Inr (initialRepo E))"
    by (simp add: GetOrInitRepo_def initialRepo_def wtCommit_def Let_def)
next
  assume a: "CommitFile E g userSub journalID entryDate content message = (g1, Inr h)"
  from CommitFile_Inr[OF a] show "hasHead g1 userSub" by (auto simp: hasHead_def)
  assume "allHeads g"
  then show "allHeads g1" using a by (rule CommitFile_allHeads)
next
  assume a: "GetFileContent E g userSub journalID entryDate commitHash = (g2, Inr b)"
  from GetFileContent_Inr[OF a] obtain repo where
    r: "GetOrInitRepo E g userSub = (g2, Inr repo)" "commits repo \<noteq> []" by blast
  then show "hasHead g2 userSub" by (rule GetOrInitRepo_hasHead)
  assume "allHeads g"
  then show "allHeads g2" using GetOrInitRepo_allHeads r(1) by blast
next
  assume a: "ListCommits E g userSub journalID entryDate = (g3, Inr l)"
  from ListCommits_Inr[OF a] obtain repo where
    r: "GetOrInitRepo E g userSub = (g3, Inr repo)" "commits repo \<noteq> []" by blast
  then show "hasHead g3 userSub" by (rule GetOrInitRepo_hasHead)
  assume "allHeads g"
  then show "allHeads g3" using GetOrInitRepo_allHeads r(1) by blast
next
  assume "allHeads g \<and> initCompletes E"
  then show "allHeads (fst (CommitFile E g userSub journalID entryDate content message))"
    using CommitFile_keeps_heads by blast
next
  assume "allHeads g \<and> initCompletes E"
  then show "allHeads (fst (GetFileContent E g userSub journalID entryDate commitHash))"
    using GetOrInitRepo_keeps_heads by (simp add: GetFileContent_root)
next
  assume "allHeads g \<and> initCompletes E"
  then show "allHeads (fst (ListCommits E g userSub journalID entryDate))"
    using GetOrInitRepo_keeps_heads by (simp add: ListCommits_root)
qed

theorem repository_has_head_witness:
  "map_of (git exInit) ''u'' = None \<and> fails (noFaults 5) GitPlainOpen = None \<and>
   fails (noFaults 5) GitPlainInit = None \<and> fails (noFaults 5) GitInitWorktree = None \<and>
   fails (noFaults 5) GitkeepWriteFile = None \<and> fails (noFaults 5) GitkeepAdd = None \<and>
   fails (noFaults 5) GitInitialCommit = None \<and>
   GetOrInitRepo (noFaults 5) (git exInit) ''u'' =
     (AList.update ''u'' (initialRepo (noFaults 5)) (git exInit), Inr (initialRepo (noFaults 5))) \<and>
   allHeads (git exCreated) \<and>
   snd (CommitFile (noFaults 5) (git exCreated) ''u'' ''J'' ''2025-12-01'' ''C'' ''m'') = Inr 2 \<and>
   hasHead (fst (CommitFile (noFaults 5) (git exCreated) ''u'' ''J'' ''2025-12-01'' ''C'' ''m'')) ''u'' \<and>
   allHeads (fst (CommitFile (noFaults 5) (git exCreated) ''u'' ''J'' ''2025-12-01'' ''C'' ''m'')) \<and>
   GetFileContent (noFaults 5) (git exCreated) ''u'' ''J'' ''2025-12-01'' None =
     (git exCreated, Inr ''A'') \<and>
   hasHead (git exCreated) ''u'' \<and>
   snd (ListCommits (noFaults 5) (git exInit) ''u'' ''J'' ''2025-12-01'') = Inr [] \<and>
   hasHead (fst (ListCommits (noFaults 5) (git exInit) ''u'' ''J'' ''2025-12-01'')) ''u'' \<and>
   initCompletes (noFaults 5) \<and>
   allHeads (fst (GetFileContent (noFaults 5) (git exCreated) ''u'' ''J'' ''2025-12-01'' None)) \<and>
   allHeads (fst (ListCommits (noFaults 5) (git exCreated) ''u'' ''J'' ''2025-12-01''))"
proof -
  have ic: "initCompletes (noFaults 5)" by (simp add: initCompletes_def noFaults_def)
  have i: "map_of (git exInit) ''u'' = None \<and> fails (noFaults 5) GitPlainOpen = None \<and>
    fails (noFaults 5) GitPlainInit = None \<and> fails (noFaults 5) GitInitWorktree = None \<and>
    fails (noFaults 5) GitkeepWriteFile = None \<and> fails (noFaults 5) GitkeepAdd = None \<and>
    fails (noFaults 5) GitInitialCommit = None"
    by (simp add: noFaults_def exInit_def)
  have a: "allHeads (git exCreated)" by code_simp
  have c: "CommitFile (noFaults 5) (git exCreated) ''u'' ''J'' ''2025-12-01'' ''C'' ''m'' =
             (fst (CommitFile (noFaults 5) (git exCreated) ''u'' ''J'' ''2025-12-01'' ''C'' ''m''),
              Inr 2)"
    by code_simp
  have c1: "snd (CommitFile (noFaults 5) (git exCreated) ''u'' ''J'' ''2025-12-01'' ''C'' ''m'') =
              Inr 2"
    using c by (metis snd_conv)
  have f: "GetFileContent (noFaults 5) (git exCreated) ''u'' ''J'' ''2025-12-01'' None =
             (git exCreated, Inr ''A'')"
    by code_simp
  have l: "ListCommits (noFaults 5) (git exInit) ''u'' ''J'' ''2025-12-01'' =
             (fst (ListCommits (noFaults 5) (git exInit) ''u'' ''J'' ''2025-12-01''), Inr [])"
    by code_simp
  have l1: "snd (ListCommits (noFaults 5) (git exInit) ''u'' ''J'' ''2025-12-01'') = Inr []"
    using l by (metis snd_conv)
  note t = repository_has_head
    [of "git exInit" "''u''" "noFaults 5" "git exCreated" "''J''" "''2025-12-01''" "''C''" "''m''"
        _ _ None]
  from t i have 1: "GetOrInitRepo (noFaults 5) (git exInit) ''u'' =
     (AList.update ''u'' (initialRepo (noFaults 5)) (git exInit), Inr (initialRepo (noFaults 5)))"
    by blast
  from t c a have 2:
    "hasHead (fst (CommitFile (noFaults 5) (git exCreated) ''u'' ''J'' ''2025-12-01'' ''C'' ''m'')) ''u''"
    "allHeads (fst (CommitFile (noFaults 5) (git exCreated) ''u'' ''J'' ''2025-12-01'' ''C'' ''m''))"
    by blast+
  from t f have 3: "hasHead (git exCreated) ''u''" by blast
  from repository_has_head
    [of "git exInit" "''u''" "noFaults 5" "git exInit" "''J''" "''2025-12-01''"] l
  have 4: "hasHead (fst (ListCommits (noFaults 5) (git exInit) ''u'' ''J'' ''2025-12-01'')) ''u''"
    by blast
  from t a ic have 5:
    "allHeads (fst (GetFileContent (noFaults 5) (git exCreated) ''u'' ''J'' ''2025-12-01'' None))"
    "allHeads (fst (ListCommits (noFaults 5) (git exCreated) ''u'' ''J'' ''2025-12-01''))"
    by blast+
  from i 1 a c1 2 f 3 l1 4 ic 5 show ?thesis by blast
qed

text \<open>
  Claim C9 as stated fails: the operations can observe a repository without a HEAD. In the
  example the first \<^verbatim>\<open>CommitFile\<close> of a user fails at the initial commit, after
  \<^verbatim>\<open>PlainInit\<close> has created the repository. The repository stays, without a HEAD.
  Later calls, in which nothing fails, open it as it is: \<^verbatim>\<open>ListCommits\<close> and
  \<^verbatim>\<open>GetFileContent\<close> return "failed to get HEAD", and \<^verbatim>\<open>CommitFile\<close> makes the
  entry's commit the root of the history (hash 0), with no initial commit below it.
\<close>

theorem repository_has_head_counterexample:
  "CommitFile (initialCommitFails 1) [] ''u'' ''J'' ''2025-12-01'' ''A'' ''m'' =
     (exHalfInit, Inl ''failed to create initial commit: disk full'') \<and>
   \<not> hasHead exHalfInit ''u'' \<and>
   GetOrInitRepo (noFaults 2) exHalfInit ''u'' =
     (exHalfInit, Inr \<lparr>commits = [], index = [(''.gitkeep'', [])],
                        worktree = [(''.gitkeep'', [])]\<rparr>) \<and>
   ListCommits (noFaults 2) exHalfInit ''u'' ''J'' ''2025-12-01'' =
     (exHalfInit, Inl ''failed to get HEAD: reference not found'') \<and>
   GetFileContent (noFaults 2) exHalfInit ''u'' ''J'' ''2025-12-01'' None =
     (exHalfInit, Inl ''failed to get HEAD: reference not found'') \<and>
   snd (CommitFile (noFaults 2) exHalfInit ''u'' ''J'' ''2025-12-01'' ''A'' ''m'') = Inr 0 \<and>
   map c_Message
     (commits (snd (hd (fst (CommitFile (noFaults 2) exHalfInit ''u'' ''J'' ''2025-12-01'' ''A'' ''m''))))) =
     [''m'']"
  by code_simp

section \<open>Reading a version after the entry is deleted\<close>



section \<open>An update with the same content\<close>

lemma CommitFile_unchanged:
  assumes r: "map_of g u = Some repo" and cl: "IsClean repo"
    and w: "map_of (headTree repo) (entryPath j d) = Some content"
    and ok: "CommitFile E g u j d content m = (g', Inr h)"
  shows "g' = g \<and> commits repo \<noteq> [] \<and> h = c_Hash (hd (commits repo))"
proof -
  have i: "map_of (index repo) (entryPath j d) = Some content"
    using cl w by (auto simp: IsClean_def intro: sameFiles_lookup2)
  have t: "map_of (worktree repo) (entryPath j d) = Some content"
    using cl i by (auto simp: IsClean_def intro: sameFiles_lookup2)
  have go: "GetOrInitRepo E g u = (g, Inr repo)"
    using ok r by (auto simp: CommitFile_def GetOrInitRepo_def split: option.splits)
  have gg: "AList.update u repo g = g" using r by (simp add: update_triv)
  show ?thesis
    using ok go cl i t
    by (auto simp: CommitFile_def Let_def update_triv gg Head_def
        split: option.splits list.splits sum.splits)
qed

lemma UpdateEntry_Inr:
  assumes "UpdateEntry E s u j d c = (s', Inr e)"
  shows "\<exists>dt entry jr h st1. parseDate d = Inr dt \<and>
     GetJournalEntryByDate E (store s) j dt = Inr entry \<and>
     GetJournal E (store s) j u = Inr jr \<and>
     CommitFile E (git s) u j d (sanitizeMarkdown c) (''Update entry for '' @ d) =
       (git s', Inr h) \<and>
     s3 s' = AList.update (e_S3Key entry) (sanitizeMarkdown c) (s3 s) \<and>
     e = entry\<lparr>e_GitCommitHash := Some h,
               e_WordCount := Some (of_nat (countWords (sanitizeMarkdown c)))\<rparr> \<and>
     UpdateJournalEntry E (store s) e = (st1, Inr ()) \<and>
     store s' = fst (CreateJournalVersion E st1
                       (systemVersion E (e_ID e) h (''Update entry for '' @ d)))"
  using assms
  by (auto simp: UpdateEntry_def Let_def Upload_def
      split: sum.splits prod.splits option.splits)

lemma CreateJournalVersion_appends:
  "v_ID v = [] \<Longrightarrow>
   versions (fst (CreateJournalVersion E st v)) = versions st \<or>
   versions (fst (CreateJournalVersion E st v)) = versions st @ [v\<lparr>v_ID := generateUUID E\<rparr>]"
  by (simp add: CreateJournalVersion_def Let_def split: option.splits)

text \<open>
  Claim C3, as amended. Let the user's repository be clean and hold, at the entry's path
  in HEAD, exactly the normalised form of the new content. A successful
  \<^verbatim>\<open>UpdateEntry\<close> then creates no commit: the repositories are unchanged, so
  \<^verbatim>\<open>ListVersions\<close> returns what it returned before. The blob holds the normalised
  content. The metadata is written: the entry's row gets the hash of the repository's
  HEAD (whichever entry that commit was made for), the word count and a new update
  time, and a version row for (entry, HEAD) is appended unless its insert fails.
\<close>

theorem same_content_update:
  assumes "UpdateEntry E s userSub journalID entryDate content = (s', Inr e)"
    and "map_of (git s) userSub = Some repo"
    and "IsClean repo"
    and "map_of (headTree repo) (entryPath journalID entryDate) = Some (sanitizeMarkdown content)"
  shows "git s' = git s \<and>
         snd (ListVersions E' s' userSub journalID entryDate) =
           snd (ListVersions E' s userSub journalID entryDate) \<and>
         map_of (s3 s') (e_S3Key e) = Some (sanitizeMarkdown content) \<and>
         commits repo \<noteq> [] \<and>
         e_GitCommitHash e = Some (c_Hash (hd (commits repo))) \<and>
         journals (store s') = journals (store s) \<and>
         entries (store s') =
           map (\<lambda>r. if e_ID r = e_ID e
                     then r\<lparr>e_S3Key := e_S3Key e, e_GitCommitHash := e_GitCommitHash e,
                            e_WordCount := e_WordCount e, e_UpdatedAt := now E\<rparr>
                     else r) (entries (store s)) \<and>
         (versions (store s') = versions (store s) \<or>
          versions (store s') = versions (store s) @
            [(systemVersion E (e_ID e) (c_Hash (hd (commits repo)))
                (''Update entry for '' @ entryDate))\<lparr>v_ID := generateUUID E\<rparr>])"
proof -
  from UpdateEntry_Inr[OF assms(1)] obtain entry h st1 where
    cf: "CommitFile E (git s) userSub journalID entryDate (sanitizeMarkdown content)
           (''Update entry for '' @ entryDate) = (git s', Inr h)"
    and s3: "s3 s' = AList.update (e_S3Key entry) (sanitizeMarkdown content) (s3 s)"
    and e: "e = entry\<lparr>e_GitCommitHash := Some h,
               e_WordCount := Some (of_nat (countWords (sanitizeMarkdown content)))\<rparr>"
    and up: "UpdateJournalEntry E (store s) e = (st1, Inr ())"
    and st: "store s' = fst (CreateJournalVersion E st1
                       (systemVersion E (e_ID e) h (''Update entry for '' @ entryDate)))"
    by blast
  from CommitFile_unchanged[OF assms(2,3,4) cf]
  have g: "git s' = git s" and ne: "commits repo \<noteq> []" and h: "h = c_Hash (hd (commits repo))"
    by auto
  have st1: "journals st1 = journals (store s)" "versions st1 = versions (store s)"
    "entries st1 = map (\<lambda>r. if e_ID r = e_ID e
                     then r\<lparr>e_S3Key := e_S3Key e, e_GitCommitHash := e_GitCommitHash e,
                            e_WordCount := e_WordCount e, e_UpdatedAt := now E\<rparr>
                     else r) (entries (store s))"
    using up by (auto simp: UpdateJournalEntry_def split: option.splits)
  have jn: "journals (store s') = journals (store s)" and en: "entries (store s') = entries st1"
    using st st1(1) CreateJournalVersion_frame by auto
  have lv: "snd (ListVersions E' s' userSub journalID entryDate) =
              snd (ListVersions E' s userSub journalID entryDate)"
    using g jn by (simp add: ListVersions_def GetJournal_def split: option.splits prod.splits)
  have k: "map_of (s3 s') (e_S3Key e) = Some (sanitizeMarkdown content)"
    using s3 e by simp
  have vs: "versions (store s') = versions (store s) \<or>
          versions (store s') = versions (store s) @
            [(systemVersion E (e_ID e) (c_Hash (hd (commits repo)))
                (''Update entry for '' @ entryDate))\<lparr>v_ID := generateUUID E\<rparr>]"
    using CreateJournalVersion_appends
        [of "systemVersion E (e_ID e) h (''Update entry for '' @ entryDate)" E st1]
      st st1(2) h by (simp add: systemVersion_def)
  show ?thesis using g lv k ne e h jn en st1(3) vs by simp
qed

theorem same_content_update_witness:
  "snd (UpdateEntry (noFaults 3) exCreated2 ''u'' ''J'' ''2025-12-01'' ''A'') =
     Inr (exEntry1\<lparr>e_GitCommitHash := Some 2\<rparr>) \<and>
   map_of (git exCreated2) ''u'' = Some exRepo2 \<and>
   IsClean exRepo2 \<and>
   map_of (headTree exRepo2) (entryPath ''J'' ''2025-12-01'') = Some (sanitizeMarkdown ''A'') \<and>
   git exUpdated = git exCreated2 \<and>
   snd (ListVersions (noFaults 4) exUpdated ''u'' ''J'' ''2025-12-01'') =
     snd (ListVersions (noFaults 4) exCreated2 ''u'' ''J'' ''2025-12-01'') \<and>
   c_Hash (hd (commits exRepo2)) = 2"
proof -
  have u: "UpdateEntry (noFaults 3) exCreated2 ''u'' ''J'' ''2025-12-01'' ''A'' =
             (exUpdated, Inr (exEntry1\<lparr>e_GitCommitHash := Some 2\<rparr>))"
    by code_simp
  have u1: "snd (UpdateEntry (noFaults 3) exCreated2 ''u'' ''J'' ''2025-12-01'' ''A'') =
              Inr (exEntry1\<lparr>e_GitCommitHash := Some 2\<rparr>)"
    using u by (metis snd_conv)
  have r: "map_of (git exCreated2) ''u'' = Some exRepo2" by code_simp
  have c: "IsClean exRepo2" by code_simp
  have t: "map_of (headTree exRepo2) (entryPath ''J'' ''2025-12-01'') = Some (sanitizeMarkdown ''A'')"
    by code_simp
  have k: "c_Hash (hd (commits exRepo2)) = 2" by code_simp
  from same_content_update[OF u r c t, of "noFaults 4"]
  have "git exUpdated = git exCreated2"
    and "snd (ListVersions (noFaults 4) exUpdated ''u'' ''J'' ''2025-12-01'') =
           snd (ListVersions (noFaults 4) exCreated2 ''u'' ''J'' ''2025-12-01'')"
    by blast+
  with u1 r c t k show ?thesis by blast
qed

text \<open>
  Claim C3 as stated fails. In the run of the example, the entry for 2025-12-01 has the
  content \<open>A\<close>, in the blob store and at its path in HEAD, and one version row. HEAD is
  the commit made for the entry of 2025-12-02. Updating the first entry with \<open>A\<close>
  succeeds and creates no commit, but it appends a version row for the first entry (three
  rows instead of two) and moves the entry's commit hash from 1 to 2: the metadata store
  is modified.
\<close>

theorem same_content_update_counterexample:
  "snd (GetVersion (noFaults 3) exCreated2 ''u'' ''J'' ''2025-12-01'' None) =
     Inr (sanitizeMarkdown ''A'') \<and>
   GetEntry (noFaults 3) exCreated2 ''u'' ''J'' ''2025-12-01'' = Inr (exEntry1, sanitizeMarkdown ''A'') \<and>
   UpdateEntry (noFaults 3) exCreated2 ''u'' ''J'' ''2025-12-01'' ''A'' =
     (exUpdated, Inr (exEntry1\<lparr>e_GitCommitHash := Some 2\<rparr>)) \<and>
   git exUpdated = git exCreated2 \<and>
   e_ID exEntry1 = ''journal-1'' \<and>
   map v_EntryID (versions (store exCreated2)) = [''journal-1'', ''journal-2''] \<and>
   map v_EntryID (versions (store exUpdated)) = [''journal-1'', ''journal-2'', ''journal-1''] \<and>
   map v_CommitHash (versions (store exUpdated)) = [1, 2, 2] \<and>
   map e_GitCommitHash (entries (store exCreated2)) = [Some 1, Some 2] \<and>
   map e_GitCommitHash (entries (store exUpdated)) = [Some 2, Some 2] \<and>
   store exUpdated \<noteq> store exCreated2"
  by code_simp

end
